theory Spec2Isabelle
  imports Main "HOL-Library.Word"
begin

section \<open>Shared values\<close>

text \<open>
  A Go \<open>error\<close> is modelled by its rendered message (what \<open>Error()\<close> returns); the nil
  error is \<open>None\<close>. \<open>int64\<close> values (\<open>time.Duration\<close>, Unix times, marker timestamps) are
  64-bit words read as two's complement by \<open>sint\<close>, so that Go's wrap-around is kept.
\<close>

type_synonym error = string
type_synonym int64 = "64 word"

text \<open>\<open>strconv.FormatInt(i, 10)\<close> and the verb \<open>%d\<close> of \<open>fmt\<close>: decimal rendering.\<close>

definition digit :: "int \<Rightarrow> char" where
  "digit d = ''0123456789'' ! nat d"

function format_digits :: "int \<Rightarrow> string" where
  "format_digits n =
     (if n < 10 then [digit n] else format_digits (n div 10) @ [digit (n mod 10)])"
  by pat_completeness auto
termination
  by (relation "measure nat") auto

definition format_int :: "int \<Rightarrow> string" where
  "format_int i = (if i < 0 then CHR ''-'' # format_digits (- i) else format_digits i)"

section \<open>transport.go: the retry engine\<close>

definition maxRetries :: int where
  "maxRetries = 5"

definition backoffMultiplier :: int64 where
  "backoffMultiplier = 10"

text \<open>\<open>time.Second\<close>, in nanoseconds.\<close>

definition time_Second :: int64 where
  "time_Second = 1000000000"

text \<open>
  The effects of \<open>retry\<close> are the calls of the operation and the calls of \<open>time.Sleep\<close>;
  the model returns them as a trace, in the order they happen.
\<close>

datatype event = Invoke | Sleep int64

text \<open>
  \<open>retry(retries, backoff, fn)\<close>. The operation \<open>fn\<close> is a closure with effects: it takes
  the state of what it closes over and returns \<open>(response, retry, err)\<close> with the new
  state. The loop \<open>for { ... }\<close> is the recursion; \<open>retries\<close> only ever decreases while it
  is positive, so the Go \<open>int\<close> cannot wrap and is an \<open>int\<close> here.
\<close>

function retry ::
  "int \<Rightarrow> int64 \<Rightarrow> ('s \<Rightarrow> ('r \<times> bool \<times> 'e) \<times> 's) \<Rightarrow> 's \<Rightarrow> ('r \<times> 'e) \<times> 's \<times> event list"
where
  "retry retries backoff fn s =
     (case fn s of ((response, again, err), s') \<Rightarrow>
        if again then
          if retries \<le> 0 then ((response, err), s', [Invoke])
          else (case retry (retries - 1) (backoff * backoffMultiplier) fn s' of
                  (res, s'', tr) \<Rightarrow> (res, s'', Invoke # Sleep backoff # tr))
        else ((response, err), s', [Invoke]))"
  by pat_completeness auto
termination
  by (relation "measure (\<lambda>(retries, backoff, fn, s). nat retries)") auto

declare retry.simps [simp del]

definition shouldRetry :: "int \<Rightarrow> bool" where
  "shouldRetry code =
     (if code = 408 \<or> code = 500 \<or> code = 502 \<or> code = 503 \<or> code = 504
         \<or> code = 522 \<or> code = 524 \<or> code = 599
      then True else False)"

text \<open>Reading a trace: how often the operation ran, and the durations slept, in order.\<close>

definition attempts :: "event list \<Rightarrow> nat" where
  "attempts tr = length (filter (\<lambda>e. e = Invoke) tr)"

fun sleeps :: "event list \<Rightarrow> int64 list" where
  "sleeps [] = []"
| "sleeps (Invoke # tr) = sleeps tr"
| "sleeps (Sleep d # tr) = d # sleeps tr"

text \<open>
  Reading a run of \<open>retry\<close> from outside: the state before invocation \<open>k\<close> of the
  operation (counted from 0), whether that invocation asked for a retry, and the
  \<open>(response, err)\<close> pair it returned; and the trace of \<open>n\<close> sleeps between \<open>n + 1\<close>
  invocations, the \<open>k\<close>-th sleep being the backoff multiplied \<open>k\<close> times.
\<close>

primrec state_at :: "('s \<Rightarrow> 'x \<times> 's) \<Rightarrow> 's \<Rightarrow> nat \<Rightarrow> 's" where
  "state_at fn s 0 = s"
| "state_at fn s (Suc k) = state_at fn (snd (fn s)) k"

definition again_at :: "('s \<Rightarrow> ('r \<times> bool \<times> 'e) \<times> 's) \<Rightarrow> 's \<Rightarrow> nat \<Rightarrow> bool" where
  "again_at fn s k = fst (snd (fst (fn (state_at fn s k))))"

definition result_at :: "('s \<Rightarrow> ('r \<times> bool \<times> 'e) \<times> 's) \<Rightarrow> 's \<Rightarrow> nat \<Rightarrow> 'r \<times> 'e" where
  "result_at fn s k =
     (case fst (fn (state_at fn s k)) of (response, again, err) \<Rightarrow> (response, err))"

definition schedule :: "int64 \<Rightarrow> nat \<Rightarrow> event list" where
  "schedule b n =
     Invoke # concat (map (\<lambda>k. [Sleep (b * backoffMultiplier ^ k), Invoke]) [0..<n])"

section \<open>The process and its environment\<close>

text \<open>
  What the three files read and write outside their own values: the wall clock
  (\<open>time.Now()\<close>, in milliseconds since the Unix epoch), the requests handed to the
  transport's \<open>http.Client\<close> and to the error boundary's own client, the two diagnostics
  timelines, the lines handed to the global logger, and the stack of the running
  goroutine as \<open>runtime.Stack\<close> would print it.
\<close>

record request =
  req_method :: string
  req_url :: string
  req_header :: "(string \<times> string) list"
  req_body :: string

text \<open>The fields of \<open>http.Response\<close> that the code reads.\<close>

record response =
  resp_StatusCode :: int
  resp_Body :: string

text \<open>
  What \<open>(*http.Client).Do\<close> returns, by its contract: a response and no error; no
  response and an error (nothing was received: DNS, refused connection, timeout); or both
  (a redirect policy failure).
\<close>

datatype do_result = Received response | Failed error | ReceivedWithError response error

text \<open>
  The value that \<open>recover()\<close> returns for a panic in progress: an error (by its message),
  a string, any other value, or nil, for a \<open>panic(nil)\<close> that the runtime hands through
  (Go before 1.21).
\<close>

datatype panic_value = ErrorValue string | StringValue string | OtherValue | NilValue

datatype outcome = Normal | Panic panic_value

definition nil_dereference :: panic_value where
  "nil_dereference = ErrorValue ''runtime error: invalid memory address or nil pointer dereference''"

section \<open>diagnostics.go\<close>

type_synonym DiagnosticsContext = string
type_synonym DiagnosticsKey = string
type_synonym DiagnosticsStep = string
type_synonym DiagnosticsAction = string

definition InitializeContext :: DiagnosticsContext where "InitializeContext = ''initialize''"
definition ConfigSyncContext :: DiagnosticsContext where "ConfigSyncContext = ''config_sync''"

definition DownloadConfigSpecsKey :: DiagnosticsKey where "DownloadConfigSpecsKey = ''download_config_specs''"
definition BootstrapKey :: DiagnosticsKey where "BootstrapKey = ''bootstrap''"
definition GetIDListSourcesKey :: DiagnosticsKey where "GetIDListSourcesKey = ''get_id_list_sources''"
definition GetIDListKey :: DiagnosticsKey where "GetIDListKey = ''get_id_list''"
definition OverallKey :: DiagnosticsKey where "OverallKey = ''overall''"
definition DataStoreConfigSpecsKey :: DiagnosticsKey where "DataStoreConfigSpecsKey = ''data_store_config_specs''"

definition NetworkRequestStep :: DiagnosticsStep where "NetworkRequestStep = ''network_request''"
definition FetchStep :: DiagnosticsStep where "FetchStep = ''fetch''"
definition ProcessStep :: DiagnosticsStep where "ProcessStep = ''process''"

definition StartAction :: DiagnosticsAction where "StartAction = ''start''"
definition EndAction :: DiagnosticsAction where "EndAction = ''end''"

text \<open>
  The pointer \<open>*diagnosticsBase\<close> a marker holds: which of the two timelines of the
  \<open>diagnostics\<close> value it appends to.
\<close>

datatype timeline_ref = InitDiagnostics | SyncDiagnostics

text \<open>A pointer field is an \<open>option\<close>: \<open>None\<close> is nil.\<close>

record tags =
  Success :: "bool option"
  StatusCode :: "int option"
  SDKRegion :: "string option"
  IDListCount :: "int option"
  URL :: "string option"

text \<open>\<open>marker\<close> embeds \<open>tags\<close>.\<close>

record marker = tags +
  Key :: "DiagnosticsKey option"
  Step :: "DiagnosticsStep option"
  Action :: "DiagnosticsAction option"
  Timestamp :: int64
  diagnostics :: timeline_ref

text \<open>The field \<open>context\<close> is \<open>context_tag\<close> here; the mutex is not modelled.\<close>

record diagnosticsBase =
  context_tag :: DiagnosticsContext
  markers :: "marker list"

record diagnostics =
  initDiagnostics :: diagnosticsBase
  syncDiagnostics :: diagnosticsBase

text \<open>
  Modelled from the spec: the type \<open>StatsigProcess\<close> and its constants are declared
  elsewhere in the repository; a timeline's context has an associated process name, and
  the zero value stands for a context that is neither.
\<close>

datatype StatsigProcess = StatsigProcessInitialize | StatsigProcessSync | StatsigProcessZero

record world =
  clock :: int
  sent :: "request list"
  posts :: "request list"
  diag :: diagnostics
  steps :: "(StatsigProcess \<times> string) list"
  errors :: "panic_value list"
  goroutine_stack :: string

definition newDiagnostics :: diagnostics where
  "newDiagnostics =
     \<lparr>initDiagnostics = \<lparr>context_tag = InitializeContext, markers = []\<rparr>,
      syncDiagnostics = \<lparr>context_tag = ConfigSyncContext, markers = []\<rparr>\<rparr>"

fun timeline :: "timeline_ref \<Rightarrow> diagnostics \<Rightarrow> diagnosticsBase" where
  "timeline InitDiagnostics d = initDiagnostics d"
| "timeline SyncDiagnostics d = syncDiagnostics d"

fun update_timeline ::
  "timeline_ref \<Rightarrow> (diagnosticsBase \<Rightarrow> diagnosticsBase) \<Rightarrow> diagnostics \<Rightarrow> diagnostics"
where
  "update_timeline InitDiagnostics f d = d\<lparr>initDiagnostics := f (initDiagnostics d)\<rparr>"
| "update_timeline SyncDiagnostics f d = d\<lparr>syncDiagnostics := f (syncDiagnostics d)\<rparr>"

text \<open>\<open>(d *diagnosticsBase) logProcess(msg)\<close>: the line goes to the logger's \<open>LogStep\<close>.\<close>

definition diagnosticsBase_logProcess :: "diagnosticsBase \<Rightarrow> string \<Rightarrow> world \<Rightarrow> world" where
  "diagnosticsBase_logProcess d msg w =
     (let process =
            (if context_tag d = InitializeContext then StatsigProcessInitialize
             else if context_tag d = ConfigSyncContext then StatsigProcessSync
             else StatsigProcessZero)
      in w\<lparr>steps := steps w @ [(process, msg)]\<rparr>)"

text \<open>
  \<open>serialize\<close> returns a \<open>map[string]interface{}\<close> with two entries. \<open>clearMarkers\<close>
  stores the nil slice, which is the slice of length 0.
\<close>

datatype serial_value = ContextValue DiagnosticsContext | MarkersValue "marker list"

definition serialize :: "diagnosticsBase \<Rightarrow> (string \<rightharpoonup> serial_value)" where
  "serialize d =
     [''context'' \<mapsto> ContextValue (context_tag d), ''markers'' \<mapsto> MarkersValue (markers d)]"

definition clearMarkers :: "diagnosticsBase \<Rightarrow> diagnosticsBase" where
  "clearMarkers d = d\<lparr>markers := []\<rparr>"

subsection \<open>The builder chain\<close>

definition new_marker :: "timeline_ref \<Rightarrow> marker" where
  "new_marker r =
     \<lparr>Success = None, StatusCode = None, SDKRegion = None, IDListCount = None, URL = None,
      Key = None, Step = None, Action = None, Timestamp = 0, diagnostics = r\<rparr>"

definition initialize :: marker where
  "initialize = new_marker InitDiagnostics"

definition configSync :: marker where
  "configSync = new_marker SyncDiagnostics"

definition downloadConfigSpecs :: "marker \<Rightarrow> marker" where
  "downloadConfigSpecs m = m\<lparr>Key := Some DownloadConfigSpecsKey\<rparr>"

definition bootstrap :: "marker \<Rightarrow> marker" where
  "bootstrap m = m\<lparr>Key := Some BootstrapKey\<rparr>"

definition getIdListSources :: "marker \<Rightarrow> marker" where
  "getIdListSources m = m\<lparr>Key := Some GetIDListSourcesKey\<rparr>"

definition getIdList :: "marker \<Rightarrow> marker" where
  "getIdList m = m\<lparr>Key := Some GetIDListKey\<rparr>"

definition overall :: "marker \<Rightarrow> marker" where
  "overall m = m\<lparr>Key := Some OverallKey\<rparr>"

definition dataStoreConfigSpecs :: "marker \<Rightarrow> marker" where
  "dataStoreConfigSpecs m = m\<lparr>Key := Some DataStoreConfigSpecsKey\<rparr>"

definition networkRequest :: "marker \<Rightarrow> marker" where
  "networkRequest m = m\<lparr>Step := Some NetworkRequestStep\<rparr>"

definition fetch :: "marker \<Rightarrow> marker" where
  "fetch m = m\<lparr>Step := Some FetchStep\<rparr>"

definition process :: "marker \<Rightarrow> marker" where
  "process m = m\<lparr>Step := Some ProcessStep\<rparr>"

definition start :: "marker \<Rightarrow> marker" where
  "start m = m\<lparr>Action := Some StartAction\<rparr>"

definition end' :: "marker \<Rightarrow> marker" where
  "end' m = m\<lparr>Action := Some EndAction\<rparr>"

definition success :: "bool \<Rightarrow> marker \<Rightarrow> marker" where
  "success val m = m\<lparr>Success := Some val\<rparr>"

definition statusCode :: "int \<Rightarrow> marker \<Rightarrow> marker" where
  "statusCode val m = m\<lparr>StatusCode := Some val\<rparr>"

definition sdkRegion :: "string \<Rightarrow> marker \<Rightarrow> marker" where
  "sdkRegion val m = m\<lparr>SDKRegion := Some val\<rparr>"

definition idListCount :: "int \<Rightarrow> marker \<Rightarrow> marker" where
  "idListCount val m = m\<lparr>IDListCount := Some val\<rparr>"

definition url :: "string \<Rightarrow> marker \<Rightarrow> marker" where
  "url val m = m\<lparr>URL := Some val\<rparr>"

subsection \<open>End of chain\<close>

text \<open>
  \<open>(m *marker) logProcess()\<close> up to its last line: the message it builds, or \<open>None\<close>
  where it dereferences a nil pointer. \<open>*m.Key\<close> is read first; \<open>*m.Step\<close>,
  \<open>*m.Action\<close> and \<open>*m.Success\<close> only on the branches that reach them.
\<close>

definition marker_message :: "marker \<Rightarrow> string option" where
  "marker_message m =
    (case Key m of None \<Rightarrow> None | Some key \<Rightarrow>
      if key = OverallKey then
        (case Action m of None \<Rightarrow> None | Some action \<Rightarrow>
          if action = StartAction then Some ''Starting...''
          else if action = EndAction then Some ''Done''
          else Some [])
      else if key = DownloadConfigSpecsKey then
        (case Step m of None \<Rightarrow> None | Some step \<Rightarrow>
          if step = NetworkRequestStep then
            (case Action m of None \<Rightarrow> None | Some action \<Rightarrow>
              if action = StartAction then Some ''Loading specs from network...''
              else if action = EndAction then
                (case Success m of None \<Rightarrow> None | Some ok \<Rightarrow>
                  if ok then Some ''Done loading specs from network''
                  else Some ''Failed to load specs from network'')
              else Some [])
          else if step = ProcessStep then
            (case Action m of None \<Rightarrow> None | Some action \<Rightarrow>
              if action = StartAction then Some ''Processing specs from network...''
              else if action = EndAction then
                (case Success m of None \<Rightarrow> None | Some ok \<Rightarrow>
                  if ok then Some ''Done processing specs from network''
                  else Some ''No updates to specs from network'')
              else Some [])
          else Some [])
      else if key = DataStoreConfigSpecsKey then
        (case Step m of None \<Rightarrow> None | Some step \<Rightarrow>
          if step = FetchStep then
            (case Action m of None \<Rightarrow> None | Some action \<Rightarrow>
              if action = StartAction then Some ''Loading specs from adapter...''
              else if action = EndAction then
                (case Success m of None \<Rightarrow> None | Some ok \<Rightarrow>
                  if ok then Some ''Done loading specs from adapter''
                  else Some ''Failed to load specs from adapter'')
              else Some [])
          else if step = ProcessStep then
            (case Action m of None \<Rightarrow> None | Some action \<Rightarrow>
              if action = StartAction then Some ''Processing specs from adapter...''
              else if action = EndAction then
                (case Success m of None \<Rightarrow> None | Some ok \<Rightarrow>
                  if ok then Some ''Done processing specs from adapter''
                  else Some ''No updates to specs from adapter'')
              else Some [])
          else Some [])
      else Some [])"

text \<open>\<open>time.Now().Unix()\<close>: whole seconds, as an \<open>int64\<close>.\<close>

definition unix_seconds :: "world \<Rightarrow> int64" where
  "unix_seconds w = word_of_int (clock w div 1000)"

text \<open>
  \<open>mark\<close> stamps the marker, appends the copy \<open>*m\<close> to the timeline it points to and
  only then builds and logs the message: when that panics, the marker is already in the
  timeline.
\<close>

definition mark :: "marker \<Rightarrow> world \<Rightarrow> outcome \<times> world" where
  "mark m w =
     (let m' = m\<lparr>Timestamp := unix_seconds w * 1000\<rparr>;
          w' = w\<lparr>diag := update_timeline (diagnostics m')
                              (\<lambda>d. d\<lparr>markers := markers d @ [m']\<rparr>) (diag w)\<rparr>
      in case marker_message m' of
           None \<Rightarrow> (Panic nil_dereference, w')
         | Some msg \<Rightarrow>
             (Normal, diagnosticsBase_logProcess (timeline (diagnostics m') (diag w')) msg w'))"

text \<open>
  A run of \<open>mark\<close> calls in the order they complete, each at its own clock reading; a
  call that panics has still appended its marker.
\<close>

fun mark_all :: "(int \<times> marker) list \<Rightarrow> world \<Rightarrow> world" where
  "mark_all [] w = w"
| "mark_all ((t, m) # ms) w = mark_all ms (snd (mark m (w\<lparr>clock := t\<rparr>)))"

section \<open>transport.go: requests\<close>

text \<open>
  The types \<open>statsigMetadata\<close> and \<open>Options\<close> are declared elsewhere in the repository;
  these are the fields the three files read.
\<close>

record statsigMetadata =
  SDKType :: string
  SDKVersion :: string

record Options =
  API :: string
  LocalMode :: bool

text \<open>The field \<open>client\<close> is the environment below.\<close>

record transport =
  api :: string
  sdkKey :: string
  metadata :: statsigMetadata
  options :: Options
  sessionID :: string

text \<open>
  The library calls of a POST, whose results the code branches on: \<open>json.Marshal\<close> of
  the payload, \<open>Decode\<close> of a response body into the caller's output slot (the new
  content of the slot, and the error), the error of \<open>http.NewRequest\<close> for a URL, and
  the transport client's \<open>Do\<close>, whose answer to a request may depend on how many requests
  came before.
\<close>

record ('i, 'o) http_env =
  marshal :: "'i \<Rightarrow> error + string"
  decode :: "string \<Rightarrow> 'o \<Rightarrow> 'o \<times> error option"
  new_request_error :: "string \<Rightarrow> error option"
  client_do :: "nat \<Rightarrow> request \<Rightarrow> do_result"

text \<open>
  Modelled from the spec: \<open>getUnixMilli\<close> is defined elsewhere in the repository; the
  client timestamp of the request headers is the time in milliseconds since the epoch.
\<close>

definition getUnixMilli :: "world \<Rightarrow> int64" where
  "getUnixMilli w = word_of_int (clock w)"

definition doRequest ::
  "('i, 'o) http_env \<Rightarrow> transport \<Rightarrow> string \<Rightarrow> string \<Rightarrow> world \<Rightarrow> do_result \<times> world"
where
  "doRequest env t endpoint body w =
     (case new_request_error env (transport.api t @ endpoint) of
        Some err \<Rightarrow> (Failed err, w)
      | None \<Rightarrow>
          (let req =
                 \<lparr>req_method = ''POST'', req_url = transport.api t @ endpoint,
                  req_header =
                    [(''STATSIG-API-KEY'', transport.sdkKey t),
                     (''Content-Type'', ''application/json''),
                     (''STATSIG-CLIENT-TIME'', format_int (sint (getUnixMilli w))),
                     (''STATSIG-SERVER-SESSION-ID'', sessionID t),
                     (''STATSIG-SDK-TYPE'', SDKType (metadata t)),
                     (''STATSIG-SDK-VERSION'', SDKVersion (metadata t))],
                  req_body = body\<rparr>
           in (client_do env (length (sent w)) req, w\<lparr>sent := sent w @ [req]\<rparr>)))"

text \<open>
  The closure that \<open>postRequestInternal\<close> hands to \<open>retry\<close>. Its state is the output slot
  and the world. On an error of \<open>doRequest\<close> the retry flag is \<open>response != nil\<close>: false
  when nothing was received.
\<close>

definition post_attempt ::
  "('i, 'o) http_env \<Rightarrow> transport \<Rightarrow> string \<Rightarrow> string \<Rightarrow> 'o \<times> world \<Rightarrow>
   (response option \<times> bool \<times> error option) \<times> ('o \<times> world)"
where
  "post_attempt env t endpoint body s =
     (case s of (out, w) \<Rightarrow>
        (case doRequest env t endpoint body w of
           (Failed err, w') \<Rightarrow> ((None, False, Some err), (out, w'))
         | (ReceivedWithError r err, w') \<Rightarrow> ((Some r, True, Some err), (out, w'))
         | (Received r, w') \<Rightarrow>
             if resp_StatusCode r \<ge> 200 \<and> resp_StatusCode r < 300 then
               (case decode env (resp_Body r) out of
                  (out', derr) \<Rightarrow> ((Some r, False, derr), (out', w')))
             else
               ((Some r, shouldRetry (resp_StatusCode r),
                 Some (''http response error code: '' @ format_int (resp_StatusCode r))),
                (out, w'))))"

definition postRequestInternal ::
  "('i, 'o) http_env \<Rightarrow> transport \<Rightarrow> string \<Rightarrow> 'i \<Rightarrow> 'o \<Rightarrow> int \<Rightarrow> int64 \<Rightarrow> world \<Rightarrow>
   (response option \<times> error option) \<times> ('o \<times> world) \<times> event list"
where
  "postRequestInternal env t endpoint inp out retries backoff w =
     (if LocalMode (options t) then ((None, None), (out, w), [])
      else
        (case marshal env inp of
           Inl err \<Rightarrow> ((None, Some err), (out, w), [])
         | Inr body \<Rightarrow> retry retries backoff (post_attempt env t endpoint body) (out, w)))"

definition postRequest ::
  "('i, 'o) http_env \<Rightarrow> transport \<Rightarrow> string \<Rightarrow> 'i \<Rightarrow> 'o \<Rightarrow> world \<Rightarrow>
   (response option \<times> error option) \<times> ('o \<times> world) \<times> event list"
where
  "postRequest env t endpoint inp out w = postRequestInternal env t endpoint inp out 0 0 w"

definition retryablePostRequest ::
  "('i, 'o) http_env \<Rightarrow> transport \<Rightarrow> string \<Rightarrow> 'i \<Rightarrow> 'o \<Rightarrow> int \<Rightarrow> world \<Rightarrow>
   (response option \<times> error option) \<times> ('o \<times> world) \<times> event list"
where
  "retryablePostRequest env t endpoint inp out retries w =
     postRequestInternal env t endpoint inp out retries time_Second w"

section \<open>error_boundary.go\<close>

text \<open>
  \<open>seen\<close> is a \<open>map[string]bool\<close>, read with the zero value \<open>false\<close> for a missing key.
  The client is the environment, the lock is not modelled, and the \<open>diagnostics\<close> pointer
  is the \<open>diag\<close> of the world.
\<close>

record errorBoundary =
  api :: string
  endpoint :: string
  sdkKey :: string
  seen :: "string \<Rightarrow> bool"

record logExceptionRequestBody =
  Exception :: string
  Info :: string

definition ErrorBoundaryAPI :: string where
  "ErrorBoundaryAPI = ''https://statsigapi.net/v1''"

definition ErrorBoundaryEndpoint :: string where
  "ErrorBoundaryEndpoint = ''/sdk_exception''"

definition newErrorBoundary :: "string \<Rightarrow> Options \<Rightarrow> errorBoundary" where
  "newErrorBoundary key opts =
     (let e = \<lparr>api = ErrorBoundaryAPI, endpoint = ErrorBoundaryEndpoint, sdkKey = key,
               seen = (\<lambda>_. False)\<rparr>
      in if API opts \<noteq> [] then e\<lparr>api := API opts\<rparr> else e)"

text \<open>
  What the error boundary calls outside the file: \<open>toError\<close> (the recovered value as an
  error), \<open>json.Marshal\<close> of the report, the error of \<open>http.NewRequest\<close> for the collector
  URL, \<open>getStatsigMetadata\<close>, and the markers that \<open>e.diagnostics.api().checkGate()\<close>,
  \<open>e.diagnostics.api().getConfig()\<close> and \<open>e.diagnostics.api().getLayer()\<close> return (the
  selectors \<open>api\<close>, \<open>checkGate\<close>, \<open>getConfig\<close> and \<open>getLayer\<close> are not in
  diagnostics.go).
\<close>

record eb_env =
  toError :: "panic_value \<Rightarrow> error option"
  marshal_report :: "logExceptionRequestBody \<Rightarrow> error + string"
  report_request_error :: "string \<Rightarrow> error option"
  getStatsigMetadata :: statsigMetadata
  api_checkGate :: marker
  api_getConfig :: marker
  api_getLayer :: marker

definition checkSeen :: "string \<Rightarrow> errorBoundary \<Rightarrow> bool \<times> errorBoundary" where
  "checkSeen exceptionString e =
     (if seen e exceptionString then (True, e)
      else (False, e\<lparr>seen := (seen e)(exceptionString := True)\<rparr>))"

text \<open>
  \<open>runtime.Stack\<close> fills a buffer of 1024 bytes and the whole buffer becomes \<open>Info\<close>: the
  trace cut to 1024 bytes, or followed by zero bytes up to that length. The response and
  the error of \<open>client.Do\<close> are dropped; the POST is the request handed to it.
\<close>

definition logException ::
  "eb_env \<Rightarrow> error option \<Rightarrow> errorBoundary \<times> world \<Rightarrow> errorBoundary \<times> world"
where
  "logException env exception s =
     (case s of (e, w) \<Rightarrow>
        (let exceptionString = (case exception of None \<Rightarrow> ''Unknown'' | Some msg \<Rightarrow> msg)
         in case checkSeen exceptionString e of
              (True, e') \<Rightarrow> (e', w)
            | (False, e') \<Rightarrow>
                (let stack = take 1024 (goroutine_stack w @ replicate 1024 (CHR 0x00));
                     body = \<lparr>Exception = exceptionString, Info = stack\<rparr>
                 in case marshal_report env body of
                      Inl err \<Rightarrow> (e', w)
                    | Inr bodyString \<Rightarrow>
                        (case report_request_error env
                                (errorBoundary.api e' @ endpoint e') of
                           Some err \<Rightarrow> (e', w)
                         | None \<Rightarrow>
                             (let req =
                                    \<lparr>req_method = ''POST'',
                                     req_url = errorBoundary.api e' @ endpoint e',
                                     req_header =
                                       [(''Content-Type'', ''application/json''),
                                        (''STATSIG-API-KEY'', errorBoundary.sdkKey e'),
                                        (''STATSIG-CLIENT-TIME'',
                                         format_int (sint (getUnixMilli w))),
                                        (''STATSIG-SDK-TYPE'',
                                         SDKType (getStatsigMetadata env)),
                                        (''STATSIG-SDK-VERSION'',
                                         SDKVersion (getStatsigMetadata env))],
                                     req_body = bodyString\<rparr>
                              in (e', w\<lparr>posts := posts w @ [req]\<rparr>))))))"

text \<open>
  Modelled from the spec: \<open>global.Logger().LogError\<close> is defined elsewhere in the
  repository; the failure is forwarded to the local logging collaborator, one line for
  each call.
\<close>

definition LogError :: "panic_value \<Rightarrow> world \<Rightarrow> world" where
  "LogError err w = w\<lparr>errors := errors w @ [err]\<rparr>"

text \<open>
  \<open>ebRecover\<close> as the deferred call of a panicking wrapper, \<open>err\<close> being what \<open>recover()\<close>
  returns. The call of \<open>recover\<close> stops the panic whatever the value; the guard
  \<open>err != nil\<close> skips the report, the log line and the callback for a nil value. A panic
  of the callback leaves the deferred call and reaches the caller.
\<close>

definition ebRecover ::
  "eb_env \<Rightarrow> (world \<Rightarrow> outcome \<times> world) \<Rightarrow> panic_value \<Rightarrow> errorBoundary \<times> world \<Rightarrow>
   outcome \<times> errorBoundary \<times> world"
where
  "ebRecover env recoverCallback err s =
     (if err \<noteq> NilValue then
        (case logException env (toError env err) s of
           (e', w1) \<Rightarrow>
             (case recoverCallback (LogError err w1) of
                (res, w2) \<Rightarrow> (res, e', w2)))
      else (case s of (e, w) \<Rightarrow> (Normal, e, w)))"

text \<open>
  A task is an opaque callable with effects on the world: it returns a value or panics.
  A wrapper returns the task's value, or the zero value after a recovered panic, or
  panics itself when the recovery does.
\<close>

datatype 'a task_result = Returns 'a | Panics panic_value

definition recovered ::
  "eb_env \<Rightarrow> (world \<Rightarrow> outcome \<times> world) \<Rightarrow> 'a \<Rightarrow> panic_value \<Rightarrow> errorBoundary \<times> world \<Rightarrow>
   'a task_result \<times> errorBoundary \<times> world"
where
  "recovered env recoverCallback zero err s =
     (case ebRecover env recoverCallback err s of
        (Normal, e', w') \<Rightarrow> (Returns zero, e', w')
      | (Panic p, e', w') \<Rightarrow> (Panics p, e', w'))"

definition captureCheckGate ::
  "eb_env \<Rightarrow> (world \<Rightarrow> bool task_result \<times> world) \<Rightarrow> errorBoundary \<times> world \<Rightarrow>
   bool task_result \<times> errorBoundary \<times> world"
where
  "captureCheckGate env task s =
     (case s of (e, w) \<Rightarrow>
        (let on_panic = recovered env (mark (success False (end' (api_checkGate env)))) False
         in case mark (start (api_checkGate env)) w of
              (Panic p, w1) \<Rightarrow> on_panic p (e, w1)
            | (Normal, w1) \<Rightarrow>
                (case task w1 of
                   (Panics p, w2) \<Rightarrow> on_panic p (e, w2)
                 | (Returns res, w2) \<Rightarrow>
                     (case mark (success True (end' (api_checkGate env))) w2 of
                        (Panic p, w3) \<Rightarrow> on_panic p (e, w3)
                      | (Normal, w3) \<Rightarrow> (Returns res, e, w3)))))"

text \<open>
  The result types \<open>DynamicConfig\<close>, \<open>Layer\<close> and \<open>ClientInitializeResponse\<close> are
  declared elsewhere: each is a type variable here, with its zero value as a parameter.
\<close>

definition captureGetConfig ::
  "eb_env \<Rightarrow> 'c \<Rightarrow> (world \<Rightarrow> 'c task_result \<times> world) \<Rightarrow> errorBoundary \<times> world \<Rightarrow>
   'c task_result \<times> errorBoundary \<times> world"
where
  "captureGetConfig env zero task s =
     (case s of (e, w) \<Rightarrow>
        (let on_panic = recovered env (mark (success False (end' (api_getConfig env)))) zero
         in case mark (start (api_getConfig env)) w of
              (Panic p, w1) \<Rightarrow> on_panic p (e, w1)
            | (Normal, w1) \<Rightarrow>
                (case task w1 of
                   (Panics p, w2) \<Rightarrow> on_panic p (e, w2)
                 | (Returns res, w2) \<Rightarrow>
                     (case mark (success True (end' (api_getConfig env))) w2 of
                        (Panic p, w3) \<Rightarrow> on_panic p (e, w3)
                      | (Normal, w3) \<Rightarrow> (Returns res, e, w3)))))"

definition captureGetLayer ::
  "eb_env \<Rightarrow> 'l \<Rightarrow> (world \<Rightarrow> 'l task_result \<times> world) \<Rightarrow> errorBoundary \<times> world \<Rightarrow>
   'l task_result \<times> errorBoundary \<times> world"
where
  "captureGetLayer env zero task s =
     (case s of (e, w) \<Rightarrow>
        (let on_panic = recovered env (mark (success False (end' (api_getLayer env)))) zero
         in case mark (start (api_getLayer env)) w of
              (Panic p, w1) \<Rightarrow> on_panic p (e, w1)
            | (Normal, w1) \<Rightarrow>
                (case task w1 of
                   (Panics p, w2) \<Rightarrow> on_panic p (e, w2)
                 | (Returns res, w2) \<Rightarrow>
                     (case mark (success True (end' (api_getLayer env))) w2 of
                        (Panic p, w3) \<Rightarrow> on_panic p (e, w3)
                      | (Normal, w3) \<Rightarrow> (Returns res, e, w3)))))"

text \<open>The two wrappers with the empty callback \<open>func() {}\<close>.\<close>

definition captureGetClientInitializeResponse ::
  "eb_env \<Rightarrow> 'r \<Rightarrow> (world \<Rightarrow> 'r task_result \<times> world) \<Rightarrow> errorBoundary \<times> world \<Rightarrow>
   'r task_result \<times> errorBoundary \<times> world"
where
  "captureGetClientInitializeResponse env zero task s =
     (case s of (e, w) \<Rightarrow>
        (case task w of
           (Panics p, w1) \<Rightarrow> recovered env (\<lambda>u. (Normal, u)) zero p (e, w1)
         | (Returns res, w1) \<Rightarrow> (Returns res, e, w1)))"

definition captureVoid ::
  "eb_env \<Rightarrow> (world \<Rightarrow> unit task_result \<times> world) \<Rightarrow> errorBoundary \<times> world \<Rightarrow>
   unit task_result \<times> errorBoundary \<times> world"
where
  "captureVoid env task s =
     (case s of (e, w) \<Rightarrow>
        (case task w of
           (Panics p, w1) \<Rightarrow> recovered env (\<lambda>u. (Normal, u)) () p (e, w1)
         | (Returns res, w1) \<Rightarrow> (Returns res, e, w1)))"

text \<open>A run of \<open>logException\<close> calls, one after the other.\<close>

fun logException_all ::
  "eb_env \<Rightarrow> error option list \<Rightarrow> errorBoundary \<times> world \<Rightarrow> errorBoundary \<times> world"
where
  "logException_all env [] s = s"
| "logException_all env (x # xs) s = logException_all env xs (logException env x s)"

definition signature :: "error option \<Rightarrow> string" where
  "signature exception = (case exception of None \<Rightarrow> ''Unknown'' | Some msg \<Rightarrow> msg)"

section \<open>Conditions on the environment of the error boundary\<close>

text \<open>
  The report of a failure can be built: \<open>json.Marshal\<close> returns no error and
  \<open>http.NewRequest\<close> accepts the collector URL.
\<close>

definition reports_succeed :: "eb_env \<Rightarrow> errorBoundary \<Rightarrow> bool" where
  "reports_succeed env e \<longleftrightarrow>
     (\<forall>body. \<exists>bodyString. marshal_report env body = Inr bodyString)
     \<and> report_request_error env (errorBoundary.api e @ endpoint e) = None"

text \<open>
  A marker of the wrappers whose log line can be built with an action alone: it has a
  key, and not one of the two keys that need a step.
\<close>

definition plain_key :: "marker \<Rightarrow> bool" where
  "plain_key m \<longleftrightarrow>
     Key m \<noteq> None \<and> Key m \<noteq> Some DownloadConfigSpecsKey
     \<and> Key m \<noteq> Some DataStoreConfigSpecsKey"

text \<open>
  What the recovery of a panic with the value \<open>v\<close> has done, from the boundary and the
  world \<open>s\<close> that the panic left to the boundary and the world \<open>s'\<close> after the wrapper:
  for a nil value, nothing; otherwise the failure went through \<open>logException\<close> (so it was
  sent unless its signature was seen before) and one line for \<open>v\<close> was added to the
  error log.
\<close>

definition recovery_effects ::
  "eb_env \<Rightarrow> panic_value \<Rightarrow> errorBoundary \<times> world \<Rightarrow> errorBoundary \<times> world \<Rightarrow> bool"
where
  "recovery_effects env v s s' \<longleftrightarrow>
     (if v = NilValue then s' = s
      else fst s' = fst (logException env (toError env v) s)
         \<and> posts (snd s') = posts (snd (logException env (toError env v) s))
         \<and> errors (snd s') = errors (snd s) @ [v])"

section \<open>Concrete inputs\<close>

text \<open>
  A transport that is not in local mode, a world at a clock reading that is not a whole
  second, and a server that answers request \<open>k\<close> with entry \<open>k\<close> of a script and
  refuses every connection after the script's end.
\<close>

definition example_transport :: transport where
  "example_transport =
     \<lparr>transport.api = ''https://example.test'', transport.sdkKey = ''secret-key'',
      metadata = \<lparr>SDKType = ''go-sdk'', SDKVersion = ''1.0.0''\<rparr>,
      options = \<lparr>API = ''https://example.test'', LocalMode = False\<rparr>,
      sessionID = ''0b5c''\<rparr>"

definition example_world :: world where
  "example_world =
     \<lparr>clock = 1700000000123, sent = [], posts = [], diag = newDiagnostics, steps = [],
      errors = [], goroutine_stack = ''goroutine 1 [running]:''\<rparr>"

definition scripted_env :: "do_result list \<Rightarrow> (unit, unit) http_env" where
  "scripted_env script =
     \<lparr>marshal = (\<lambda>_. Inr ''{}''), decode = (\<lambda>_ slot. (slot, None)),
      new_request_error = (\<lambda>_. None),
      client_do = (\<lambda>k _. if k < length script then script ! k
                           else Failed ''dial tcp: connection refused'')\<rparr>"

definition status :: "int \<Rightarrow> do_result" where
  "status code = Received \<lparr>resp_StatusCode = code, resp_Body = ''{}''\<rparr>"

text \<open>What the client returns when its redirect policy fails: a response and an error.\<close>

definition redirect_failure :: do_result where
  "redirect_failure =
     ReceivedWithError \<lparr>resp_StatusCode = 302, resp_Body = []\<rparr> ''stopped after 10 redirects''"

text \<open>An operation that asks for a retry every time.\<close>

definition always_again :: "unit \<Rightarrow> (unit \<times> bool \<times> unit) \<times> unit" where
  "always_again s = (((), True, ()), s)"

text \<open>The same transport in local mode, and an environment in which nothing works.\<close>

definition local_transport :: transport where
  "local_transport = example_transport\<lparr>options := \<lparr>API = [], LocalMode = True\<rparr>\<rparr>"

definition broken_env :: "(unit, unit) http_env" where
  "broken_env =
     \<lparr>marshal = (\<lambda>_. Inl ''json: unsupported type''), decode = (\<lambda>_ slot. (slot, Some ''EOF'')),
      new_request_error = (\<lambda>_. Some ''parse error''),
      client_do = (\<lambda>_ _. Failed ''dial tcp: connection refused'')\<rparr>"

text \<open>
  An environment of the error boundary: the recovered value rendered by its message, a
  report that always serializes, a collector URL that always parses, and wrapper markers
  with keys of their own on the initialize timeline. A task that panics with \<open>boom\<close>.
\<close>

definition example_eb_env :: eb_env where
  "example_eb_env =
     \<lparr>toError = (\<lambda>v. case v of ErrorValue msg \<Rightarrow> Some msg | StringValue msg \<Rightarrow> Some msg
                        | OtherValue \<Rightarrow> Some [] | NilValue \<Rightarrow> None),
      marshal_report = (\<lambda>body. Inr (Exception body @ ''|'' @ Info body)),
      report_request_error = (\<lambda>_. None),
      getStatsigMetadata = \<lparr>SDKType = ''go-sdk'', SDKVersion = ''1.0.0''\<rparr>,
      api_checkGate = (new_marker InitDiagnostics)\<lparr>Key := Some ''check_gate''\<rparr>,
      api_getConfig = (new_marker InitDiagnostics)\<lparr>Key := Some ''get_config''\<rparr>,
      api_getLayer = (new_marker InitDiagnostics)\<lparr>Key := Some ''get_layer''\<rparr>\<rparr>"

definition example_boundary :: errorBoundary where
  "example_boundary = newErrorBoundary ''secret-key'' \<lparr>API = [], LocalMode = False\<rparr>"

definition boom :: "world \<Rightarrow> 'a task_result \<times> world" where
  "boom u = (Panics (StringValue ''boom''), u)"

text \<open>A task that calls \<open>panic(nil)\<close>.\<close>

definition silent_panic :: "world \<Rightarrow> 'a task_result \<times> world" where
  "silent_panic u = (Panics NilValue, u)"

section \<open>Properties of the retry engine\<close>

lemma retry_stop:
  "fn s = ((response, False, err), s') \<Longrightarrow> retry r b fn s = ((response, err), s', [Invoke])"
  by (simp add: retry.simps)

lemma retry_exhausted:
  "fn s = ((response, True, err), s') \<Longrightarrow> r \<le> 0 \<Longrightarrow>
   retry r b fn s = ((response, err), s', [Invoke])"
  by (simp add: retry.simps)

lemma retry_again:
  "fn s = ((response, True, err), s') \<Longrightarrow> 0 < r \<Longrightarrow>
   retry r b fn s =
     (case retry (r - 1) (b * backoffMultiplier) fn s' of
        (res, s'', tr) \<Rightarrow> (res, s'', Invoke # Sleep b # tr))"
  by (subst retry.simps) simp

lemma attempts_Cons:
  "attempts (Invoke # tr) = Suc (attempts tr)"
  "attempts (Sleep d # tr) = attempts tr"
  "attempts [] = 0"
  by (simp_all add: attempts_def)

lemma schedule_0: "schedule b 0 = [Invoke]"
  by (simp add: schedule_def)

lemma upt_Suc_shift: "[0..<Suc n] = 0 # map Suc [0..<n]"
  by (simp add: upt_conv_Cons map_Suc_upt del: upt_Suc)

lemma schedule_Suc:
  "schedule b (Suc n) = Invoke # Sleep b # schedule (b * backoffMultiplier) n"
  by (simp add: schedule_def upt_Suc_shift comp_def mult.assoc del: upt_Suc)

lemma attempts_schedule: "attempts (schedule b n) = Suc n"
  by (induction n arbitrary: b) (simp_all add: schedule_0 schedule_Suc attempts_Cons)

lemma sleeps_schedule:
  "sleeps (schedule b n) = map (\<lambda>k. b * backoffMultiplier ^ k) [0..<n]"
proof (induction n arbitrary: b)
  case 0
  then show ?case by (simp add: schedule_0)
next
  case (Suc n)
  then show ?case
    by (simp add: schedule_Suc upt_Suc_shift comp_def mult.assoc del: upt_Suc)
qed

text \<open>
  One run of \<open>retry\<close>: there are \<open>n\<close> sleeps and \<open>n + 1\<close> invocations, every invocation
  before the last asked for a retry, and the last one did not or the budget was used up.
\<close>

lemma retry_runs:
  "\<exists>n. retry r b fn s = (result_at fn s n, state_at fn s (Suc n), schedule b n)
       \<and> int n \<le> max 0 r
       \<and> (\<forall>k<n. again_at fn s k)
       \<and> (\<not> again_at fn s n \<or> int n = max 0 r)"
proof (induction r b fn s rule: retry.induct)
  case (1 retries backoff fn s)
  obtain response again err s' where f: "fn s = ((response, again, err), s')"
    by (metis prod.exhaust)
  show ?case
  proof (cases "again \<and> 0 < retries")
    case False
    then have "retry retries backoff fn s = ((response, err), s', [Invoke])"
      using f by (cases again) (simp_all add: retry_stop retry_exhausted)
    moreover have "again \<Longrightarrow> max 0 retries = 0"
      using False by simp
    ultimately show ?thesis
      using f by (intro exI [of _ 0]) (auto simp: result_at_def again_at_def schedule_0)
  next
    case True
    then have a: again and p: "0 < retries" by simp_all
    from "1.IH" [OF f [symmetric] refl refl] a p
    obtain n where n:
      "retry (retries - 1) (backoff * backoffMultiplier) fn s'
         = (result_at fn s' n, state_at fn s' (Suc n),
            schedule (backoff * backoffMultiplier) n)"
      "int n \<le> max 0 (retries - 1)"
      "\<forall>k<n. again_at fn s' k"
      "\<not> again_at fn s' n \<or> int n = max 0 (retries - 1)"
      by auto
    have shift: "\<And>k. again_at fn s (Suc k) = again_at fn s' k"
      "\<And>k. result_at fn s (Suc k) = result_at fn s' k"
      using f by (simp_all add: again_at_def result_at_def)
    have a0: "again_at fn s 0"
      using f a by (simp add: again_at_def)
    have "retry retries backoff fn s
        = (result_at fn s (Suc n), state_at fn s (Suc (Suc n)), schedule backoff (Suc n))"
      using f a p n(1) by (simp add: retry_again schedule_Suc shift)
    moreover have "int (Suc n) \<le> max 0 retries"
      using n(2) p by simp
    moreover have "\<forall>k<Suc n. again_at fn s k"
      using n(3) a0 shift(1) by (auto simp: less_Suc_eq_0_disj)
    moreover have "\<not> again_at fn s (Suc n) \<or> int (Suc n) = max 0 retries"
      using n(4) p shift(1) by auto
    ultimately show ?thesis by blast
  qed
qed

lemma retry_again_trace:
  assumes "fn s = ((response, True, err), s')" "0 < r" "retry r b fn s = (res, s'', tr)"
  shows "take 2 tr = [Invoke, Sleep b] \<and> 2 \<le> attempts tr"
proof -
  obtain n where "retry (r - 1) (b * backoffMultiplier) fn s'
      = (result_at fn s' n, state_at fn s' (Suc n), schedule (b * backoffMultiplier) n)"
    using retry_runs [of "r - 1" "b * backoffMultiplier" fn s'] by blast
  then have "tr = Invoke # Sleep b # schedule (b * backoffMultiplier) n"
    using assms by (auto simp: retry_again)
  then show ?thesis
    by (simp add: attempts_Cons attempts_schedule)
qed

text \<open>A product that fits in an \<open>int64\<close> is not changed by the wrap-around.\<close>

lemma sint_word_of_int64:
  assumes "- (2 ^ 63) \<le> x" "x < 2 ^ 63"
  shows "sint (word_of_int x :: int64) = x"
  using assms by (simp add: int_word_sint)

lemma sint_scaled:
  fixes b :: int64
  assumes "- (2 ^ 63) \<le> sint b * 10 ^ k" "sint b * 10 ^ k < 2 ^ 63"
  shows "sint (b * backoffMultiplier ^ k) = sint b * 10 ^ k"
proof -
  have "b * backoffMultiplier ^ k = word_of_int (sint b * 10 ^ k)"
    by (simp add: backoffMultiplier_def)
  then show ?thesis
    using sint_word_of_int64 [OF assms] by (simp only:)
qed

section \<open>Properties of the transport\<close>

lemma post_attempt_Failed:
  "doRequest env t ep body w = (Failed err, w') \<Longrightarrow>
   post_attempt env t ep body (out, w) = ((None, False, Some err), (out, w'))"
  by (simp add: post_attempt_def)

lemma post_attempt_ReceivedWithError:
  "doRequest env t ep body w = (ReceivedWithError r err, w') \<Longrightarrow>
   post_attempt env t ep body (out, w) = ((Some r, True, Some err), (out, w'))"
  by (simp add: post_attempt_def)

lemma post_attempt_2xx:
  "doRequest env t ep body w = (Received r, w') \<Longrightarrow>
   200 \<le> resp_StatusCode r \<Longrightarrow> resp_StatusCode r < 300 \<Longrightarrow>
   post_attempt env t ep body (out, w) =
     ((Some r, False, snd (decode env (resp_Body r) out)),
      (fst (decode env (resp_Body r) out), w'))"
  by (simp add: post_attempt_def split: prod.splits)

lemma post_attempt_other:
  "doRequest env t ep body w = (Received r, w') \<Longrightarrow>
   \<not> (200 \<le> resp_StatusCode r \<and> resp_StatusCode r < 300) \<Longrightarrow>
   post_attempt env t ep body (out, w) =
     ((Some r, shouldRetry (resp_StatusCode r),
       Some (''http response error code: '' @ format_int (resp_StatusCode r))), (out, w'))"
  by (auto simp: post_attempt_def)

lemma shouldRetry_iff:
  "shouldRetry code \<longleftrightarrow> code \<in> {408, 500, 502, 503, 504, 522, 524, 599}"
  by (simp add: shouldRetry_def)

lemma postRequestInternal_online:
  "\<not> LocalMode (options t) \<Longrightarrow> marshal env inp = Inr body \<Longrightarrow>
   postRequestInternal env t ep inp out retries backoff w =
     retry retries backoff (post_attempt env t ep body) (out, w)"
  by (simp add: postRequestInternal_def)

lemma doRequest_Received_sent:
  "doRequest env t ep body w = (Received r, w') \<Longrightarrow> length (sent w') = Suc (length (sent w))"
  by (auto simp: doRequest_def Let_def split: option.splits)

lemma received_classification:
  assumes "\<not> LocalMode (options t)" and "marshal env inp = Inr body"
    and "doRequest env t ep body w = (Received r, w')"
    and "postRequestInternal env t ep inp out retries backoff w = (res, s', tr)"
    and "code = resp_StatusCode r"
  shows "(200 \<le> code \<and> code < 300 \<longrightarrow>
            tr = [Invoke] \<and> res = (Some r, snd (decode env (resp_Body r) out))
          \<and> s' = (fst (decode env (resp_Body r) out), w'))
       \<and> (\<not> (200 \<le> code \<and> code < 300)
          \<and> code \<notin> {408, 500, 502, 503, 504, 522, 524, 599} \<longrightarrow>
            tr = [Invoke]
          \<and> res = (Some r, Some (''http response error code: '' @ format_int code))
          \<and> s' = (out, w'))
       \<and> (\<not> (200 \<le> code \<and> code < 300) \<and> 0 < retries \<longrightarrow>
            (1 < attempts tr \<longleftrightarrow> code \<in> {408, 500, 502, 503, 504, 522, 524, 599}))
       \<and> (\<not> (200 \<le> code \<and> code < 300) \<and> retries \<le> 0 \<longrightarrow> tr = [Invoke])
       \<and> length (sent w') = Suc (length (sent w))"
proof -
  have run: "retry retries backoff (post_attempt env t ep body) (out, w) = (res, s', tr)"
    using assms(1,2,4) by (simp add: postRequestInternal_online)
  have one: "length (sent w') = Suc (length (sent w))"
    using assms(3) by (rule doRequest_Received_sent)
  show ?thesis
  proof (cases "200 \<le> code \<and> code < 300")
    case True
    then have "post_attempt env t ep body (out, w) =
       ((Some r, False, snd (decode env (resp_Body r) out)),
        (fst (decode env (resp_Body r) out), w'))"
      using assms(3,5) by (simp add: post_attempt_2xx)
    then show ?thesis
      using run True one by (auto simp: retry_stop)
  next
    case False
    then have a: "post_attempt env t ep body (out, w) =
       ((Some r, shouldRetry code,
         Some (''http response error code: '' @ format_int code)), (out, w'))"
      using assms(3,5) by (simp add: post_attempt_other)
    show ?thesis
    proof (cases "shouldRetry code")
      case no: False
      have "post_attempt env t ep body (out, w) =
         ((Some r, False, Some (''http response error code: '' @ format_int code)), (out, w'))"
        using a no by simp
      then have "tr = [Invoke]
          \<and> res = (Some r, Some (''http response error code: '' @ format_int code))
          \<and> s' = (out, w')"
        using run by (simp add: retry_stop)
      then show ?thesis
        using False no one by (auto simp: shouldRetry_iff attempts_Cons)
    next
      case yes: True
      have a': "post_attempt env t ep body (out, w) =
         ((Some r, True, Some (''http response error code: '' @ format_int code)), (out, w'))"
        using a yes by simp
      have "0 < retries \<Longrightarrow> 1 < attempts tr"
        using retry_again_trace [OF a' _ run] by simp
      moreover have "retries \<le> 0 \<Longrightarrow> tr = [Invoke]"
        using a' run by (simp add: retry_exhausted)
      ultimately show ?thesis
        using False yes one by (auto simp: shouldRetry_iff)
    qed
  qed
qed

section \<open>Claims about the transport and the retry engine\<close>

text \<open>
  C1, as amended. An attempt that ends with an error and no response (the URL does not
  make a request, or the client reports a DNS failure, a refused connection or a
  timeout) is not retried: \<open>postRequest\<close> and \<open>retryablePostRequest\<close> return that error
  with a nil response after this one attempt, without sleeping, whatever the retry
  budget. An error that comes with a response is retried while budget remains: the run
  goes on with a sleep of one second and a second attempt.
\<close>

theorem transport_error_not_retried:
  assumes "\<not> LocalMode (options t)" and "marshal env inp = Inr body"
    and "doRequest env t ep body w = (d, w')"
  shows "(d = Failed err \<longrightarrow>
            postRequest env t ep inp out w = ((None, Some err), (out, w'), [Invoke])
          \<and> retryablePostRequest env t ep inp out retries w
              = ((None, Some err), (out, w'), [Invoke]))
       \<and> (d = ReceivedWithError r err \<and> 0 < retries \<longrightarrow>
            take 2 (snd (snd (retryablePostRequest env t ep inp out retries w)))
              = [Invoke, Sleep time_Second]
          \<and> 2 \<le> attempts (snd (snd (retryablePostRequest env t ep inp out retries w))))"
proof (intro conjI impI)
  assume d: "d = Failed err"
  then have a: "post_attempt env t ep body (out, w) = ((None, False, Some err), (out, w'))"
    using assms(3) by (simp add: post_attempt_Failed)
  show "postRequest env t ep inp out w = ((None, Some err), (out, w'), [Invoke])"
    using assms(1,2) a by (simp add: postRequest_def postRequestInternal_online retry_stop)
  show "retryablePostRequest env t ep inp out retries w
      = ((None, Some err), (out, w'), [Invoke])"
    using assms(1,2) a
    by (simp add: retryablePostRequest_def postRequestInternal_online retry_stop)
next
  assume d: "d = ReceivedWithError r err \<and> 0 < retries"
  then have a: "post_attempt env t ep body (out, w) = ((Some r, True, Some err), (out, w'))"
    using assms(3) by (simp add: post_attempt_ReceivedWithError)
  let ?run = "retryablePostRequest env t ep inp out retries w"
  have run: "retry retries time_Second (post_attempt env t ep body) (out, w)
      = (fst ?run, fst (snd ?run), snd (snd ?run))"
    using assms(1,2) by (simp add: retryablePostRequest_def postRequestInternal_online)
  from retry_again_trace [OF a _ run] d
  show "take 2 (snd (snd ?run)) = [Invoke, Sleep time_Second]"
    and "2 \<le> attempts (snd (snd ?run))" by simp_all
qed

theorem transport_error_not_retried_witness:
  "\<not> LocalMode (options example_transport)
   \<and> marshal (scripted_env []) () = Inr ''{}''
   \<and> fst (doRequest (scripted_env []) example_transport ''/log_event'' ''{}'' example_world)
       = Failed ''dial tcp: connection refused''
   \<and> fst (retryablePostRequest (scripted_env []) example_transport ''/log_event'' () () 5
            example_world)
       = (None, Some ''dial tcp: connection refused'')
   \<and> snd (snd (retryablePostRequest (scripted_env []) example_transport ''/log_event'' () () 5
                 example_world))
       = [Invoke]
   \<and> fst (doRequest (scripted_env [redirect_failure, status 200]) example_transport
            ''/log_event'' ''{}'' example_world)
       = redirect_failure
   \<and> (0::int) < 5
   \<and> take 2 (snd (snd (retryablePostRequest (scripted_env [redirect_failure, status 200])
                          example_transport ''/log_event'' () () 5 example_world)))
       = [Invoke, Sleep time_Second]"
proof -
  have h1: "\<not> LocalMode (options example_transport)"
    by (simp add: example_transport_def)
  have h2: "marshal (scripted_env script) () = Inr ''{}''" for script
    by (simp add: scripted_env_def)
  obtain w' where h3:
    "doRequest (scripted_env []) example_transport ''/log_event'' ''{}'' example_world
       = (Failed ''dial tcp: connection refused'', w')"
    by (simp add: doRequest_def scripted_env_def)
  obtain w'' where h4:
    "doRequest (scripted_env [redirect_failure, status 200]) example_transport
       ''/log_event'' ''{}'' example_world
       = (ReceivedWithError \<lparr>resp_StatusCode = 302, resp_Body = []\<rparr>
            ''stopped after 10 redirects'', w'')"
    by (simp add: doRequest_def scripted_env_def example_world_def redirect_failure_def)
  show ?thesis
    using h1 h2 h3 h4
      transport_error_not_retried [OF h1 h2 h3,
        where err = "''dial tcp: connection refused''" and out = "()" and retries = 5]
      transport_error_not_retried [OF h1 h2 h4,
        where err = "''stopped after 10 redirects''" and out = "()" and retries = 5
          and r = "\<lparr>resp_StatusCode = 302, resp_Body = []\<rparr>"]
    by (simp add: redirect_failure_def)
qed

text \<open>
  The claim as written fails where the server refuses every connection: five retries
  remain, and the run is one attempt and no sleep.
\<close>

theorem transport_error_retried_counterexample:
  "fst (doRequest (scripted_env []) example_transport ''/log_event'' ''{}'' example_world)
     = Failed ''dial tcp: connection refused''
   \<and> (0::int) < 5
   \<and> attempts (snd (snd (retryablePostRequest (scripted_env []) example_transport
                            ''/log_event'' () () 5 example_world))) = 1
   \<and> sleeps (snd (snd (retryablePostRequest (scripted_env []) example_transport
                          ''/log_event'' () () 5 example_world))) = []"
  by code_simp

text \<open>
  C2, as amended. For every retry budget \<open>r \<ge> 0\<close>, initial backoff \<open>b\<close> and operation:
  \<open>retry\<close> invokes the operation at least once and at most \<open>r + 1\<close> times; every
  invocation before the last asked for a retry, and the last one did not or was number
  \<open>r + 1\<close>; the result is the \<open>(response, err)\<close> pair of the last invocation; between
  successive invocations there is exactly one sleep, and the durations are
  \<open>b, 10 b, 100 b, ...\<close> in the wrap-around arithmetic of \<open>int64\<close> nanoseconds: the \<open>k\<close>-th
  sleep is the number \<open>b * 10 ^ k\<close> itself whenever that number fits in an \<open>int64\<close>.
\<close>

theorem retry_bounded_backoff:
  assumes "0 \<le> r" and "retry r b fn s = (res, s', tr)"
  shows "1 \<le> attempts tr \<and> int (attempts tr) \<le> r + 1
       \<and> (\<forall>k < attempts tr - 1. again_at fn s k)
       \<and> (\<not> again_at fn s (attempts tr - 1) \<or> int (attempts tr) = r + 1)
       \<and> res = result_at fn s (attempts tr - 1)
       \<and> s' = state_at fn s (attempts tr)
       \<and> tr = schedule b (attempts tr - 1)
       \<and> sleeps tr = map (\<lambda>k. b * backoffMultiplier ^ k) [0..<attempts tr - 1]
       \<and> (\<forall>k < attempts tr - 1.
             - (2 ^ 63) \<le> sint b * 10 ^ k \<and> sint b * 10 ^ k < 2 ^ 63 \<longrightarrow>
             sint (sleeps tr ! k) = sint b * 10 ^ k)"
proof -
  obtain n where n:
    "retry r b fn s = (result_at fn s n, state_at fn s (Suc n), schedule b n)"
    "int n \<le> max 0 r" "\<forall>k<n. again_at fn s k" "\<not> again_at fn s n \<or> int n = max 0 r"
    using retry_runs [of r b fn s] by blast
  have tr: "tr = schedule b n" and res: "res = result_at fn s n"
    and s': "s' = state_at fn s (Suc n)"
    using n(1) assms(2) by simp_all
  have a: "attempts tr = Suc n"
    by (simp add: tr attempts_schedule)
  have sl: "sleeps tr = map (\<lambda>k. b * backoffMultiplier ^ k) [0..<n]"
    by (simp add: tr sleeps_schedule)
  have fits: "sint (sleeps tr ! k) = sint b * 10 ^ k"
    if "k < n" "- (2 ^ 63) \<le> sint b * 10 ^ k" "sint b * 10 ^ k < 2 ^ 63" for k
    using that by (simp add: sl sint_scaled)
  have m: "max 0 r = r"
    using assms(1) by simp
  show ?thesis
    using n(2,3,4) res s' tr sl fits unfolding a m by auto
qed

theorem retry_bounded_backoff_witness:
  "(0::int) \<le> 5
   \<and> attempts (snd (snd (retry 5 time_Second
         (post_attempt (scripted_env [status 503, status 503, status 200]) example_transport
            ''/log_event'' ''{}'') ((), example_world)))) = 3
   \<and> fst (retry 5 time_Second
         (post_attempt (scripted_env [status 503, status 503, status 200]) example_transport
            ''/log_event'' ''{}'') ((), example_world))
       = result_at
         (post_attempt (scripted_env [status 503, status 503, status 200]) example_transport
            ''/log_event'' ''{}'') ((), example_world) 2
   \<and> fst (retry 5 time_Second
         (post_attempt (scripted_env [status 503, status 503, status 200]) example_transport
            ''/log_event'' ''{}'') ((), example_world))
       = (Some \<lparr>resp_StatusCode = 200, resp_Body = ''{}''\<rparr>, None)
   \<and> sleeps (snd (snd (retry 5 time_Second
         (post_attempt (scripted_env [status 503, status 503, status 200]) example_transport
            ''/log_event'' ''{}'') ((), example_world)))) = [1000000000, 10000000000]"
proof -
  let ?fn = "post_attempt (scripted_env [status 503, status 503, status 200])
               example_transport ''/log_event'' ''{}''"
  let ?run = "retry 5 time_Second ?fn ((), example_world)"
  have n: "attempts (snd (snd ?run)) = 3"
    by code_simp
  have v: "fst ?run = (Some \<lparr>resp_StatusCode = 200, resp_Body = ''{}''\<rparr>, None)"
    by code_simp
  have sl: "sleeps (snd (snd ?run)) = [1000000000, 10000000000]"
    by code_simp
  have run: "?run = (fst ?run, fst (snd ?run), snd (snd ?run))"
    by simp
  have "fst ?run = result_at ?fn ((), example_world) (attempts (snd (snd ?run)) - 1)"
    using retry_bounded_backoff [OF _ run] by simp
  then show ?thesis
    using n v sl by simp
qed

text \<open>
  The claim as written, with durations as numbers, fails when the product leaves
  \<open>int64\<close>: with a backoff of one second and a budget of 11, the operation asking for a
  retry every time, the eleventh sleep is not \<open>10 ^ 10\<close> seconds but a negative duration.
\<close>

theorem retry_backoff_counterexample:
  "attempts (snd (snd (retry 11 time_Second always_again ()))) = 12
   \<and> sint (sleeps (snd (snd (retry 11 time_Second always_again ()))) ! 10)
       = - 8446744073709551616
   \<and> sint (sleeps (snd (snd (retry 11 time_Second always_again ()))) ! 10)
       \<noteq> sint time_Second * 10 ^ 10"
  by code_simp

text \<open>
  C3, as amended. For a response received without an error, with status code \<open>code\<close>: a
  2xx response ends the run after this attempt, decoded into the caller's output slot,
  with the decoder's error as the error; a code outside 2xx and outside
  \<open>{408, 500, 502, 503, 504, 522, 524, 599}\<close> ends the run after this one attempt with
  the error \<open>http response error code: code\<close>, the slot untouched, whatever the budget;
  and a response outside 2xx is followed by another attempt exactly when its code is in
  that set, given that budget remains (with none left, the run ends there too). A
  response that comes together with an error of the client is not classified by its
  status code: whatever the code, it is followed by a sleep of the backoff and another
  attempt while budget remains, and with none left the run ends with that response and
  that error; it is never decoded. Either way the attempt is exactly one request to the
  server.
\<close>

theorem status_code_classification:
  assumes "\<not> LocalMode (options t)" and "marshal env inp = Inr body"
    and "doRequest env t ep body w = (d, w')"
    and "postRequestInternal env t ep inp out retries backoff w = (res, s', tr)"
  shows "(d = Received r \<and> code = resp_StatusCode r \<longrightarrow>
           (200 \<le> code \<and> code < 300 \<longrightarrow>
              tr = [Invoke] \<and> res = (Some r, snd (decode env (resp_Body r) out))
            \<and> s' = (fst (decode env (resp_Body r) out), w'))
         \<and> (\<not> (200 \<le> code \<and> code < 300)
            \<and> code \<notin> {408, 500, 502, 503, 504, 522, 524, 599} \<longrightarrow>
              tr = [Invoke]
            \<and> res = (Some r, Some (''http response error code: '' @ format_int code))
            \<and> s' = (out, w'))
         \<and> (\<not> (200 \<le> code \<and> code < 300) \<and> 0 < retries \<longrightarrow>
              (1 < attempts tr \<longleftrightarrow> code \<in> {408, 500, 502, 503, 504, 522, 524, 599}))
         \<and> (\<not> (200 \<le> code \<and> code < 300) \<and> retries \<le> 0 \<longrightarrow> tr = [Invoke])
         \<and> length (sent w') = Suc (length (sent w)))
       \<and> (d = ReceivedWithError r err \<longrightarrow>
           (0 < retries \<longrightarrow> take 2 tr = [Invoke, Sleep backoff] \<and> 1 < attempts tr)
         \<and> (retries \<le> 0 \<longrightarrow> tr = [Invoke] \<and> res = (Some r, Some err) \<and> s' = (out, w'))
         \<and> length (sent w') = Suc (length (sent w)))"
proof -
  have first: "d = Received r \<and> code = resp_StatusCode r \<longrightarrow>
         (200 \<le> code \<and> code < 300 \<longrightarrow>
              tr = [Invoke] \<and> res = (Some r, snd (decode env (resp_Body r) out))
            \<and> s' = (fst (decode env (resp_Body r) out), w'))
         \<and> (\<not> (200 \<le> code \<and> code < 300)
            \<and> code \<notin> {408, 500, 502, 503, 504, 522, 524, 599} \<longrightarrow>
              tr = [Invoke]
            \<and> res = (Some r, Some (''http response error code: '' @ format_int code))
            \<and> s' = (out, w'))
         \<and> (\<not> (200 \<le> code \<and> code < 300) \<and> 0 < retries \<longrightarrow>
              (1 < attempts tr \<longleftrightarrow> code \<in> {408, 500, 502, 503, 504, 522, 524, 599}))
         \<and> (\<not> (200 \<le> code \<and> code < 300) \<and> retries \<le> 0 \<longrightarrow> tr = [Invoke])
         \<and> length (sent w') = Suc (length (sent w))"
  proof
    assume "d = Received r \<and> code = resp_StatusCode r"
    then have "doRequest env t ep body w = (Received r, w')" and c: "code = resp_StatusCode r"
      using assms(3) by simp_all
    from received_classification [OF assms(1,2) this(1) assms(4) c]
    show "(200 \<le> code \<and> code < 300 \<longrightarrow>
              tr = [Invoke] \<and> res = (Some r, snd (decode env (resp_Body r) out))
            \<and> s' = (fst (decode env (resp_Body r) out), w'))
         \<and> (\<not> (200 \<le> code \<and> code < 300)
            \<and> code \<notin> {408, 500, 502, 503, 504, 522, 524, 599} \<longrightarrow>
              tr = [Invoke]
            \<and> res = (Some r, Some (''http response error code: '' @ format_int code))
            \<and> s' = (out, w'))
         \<and> (\<not> (200 \<le> code \<and> code < 300) \<and> 0 < retries \<longrightarrow>
              (1 < attempts tr \<longleftrightarrow> code \<in> {408, 500, 502, 503, 504, 522, 524, 599}))
         \<and> (\<not> (200 \<le> code \<and> code < 300) \<and> retries \<le> 0 \<longrightarrow> tr = [Invoke])
         \<and> length (sent w') = Suc (length (sent w))" .
  qed
  have second: "d = ReceivedWithError r err \<longrightarrow>
           (0 < retries \<longrightarrow> take 2 tr = [Invoke, Sleep backoff] \<and> 1 < attempts tr)
         \<and> (retries \<le> 0 \<longrightarrow> tr = [Invoke] \<and> res = (Some r, Some err) \<and> s' = (out, w'))
         \<and> length (sent w') = Suc (length (sent w))"
  proof
  assume d: "d = ReceivedWithError r err"
  then have a: "post_attempt env t ep body (out, w) = ((Some r, True, Some err), (out, w'))"
    using assms(3) by (simp add: post_attempt_ReceivedWithError)
  have run: "retry retries backoff (post_attempt env t ep body) (out, w) = (res, s', tr)"
    using assms(1,2,4) by (simp add: postRequestInternal_online)
  have more: "take 2 tr = [Invoke, Sleep backoff] \<and> 1 < attempts tr" if "0 < retries"
    using retry_again_trace [OF a that run] by simp
  have last: "tr = [Invoke] \<and> res = (Some r, Some err) \<and> s' = (out, w')" if "retries \<le> 0"
    using a run that by (simp add: retry_exhausted)
  have one: "length (sent w') = Suc (length (sent w))"
    using assms(3) d by (auto simp: doRequest_def Let_def split: option.splits)
  show "(0 < retries \<longrightarrow> take 2 tr = [Invoke, Sleep backoff] \<and> 1 < attempts tr)
         \<and> (retries \<le> 0 \<longrightarrow> tr = [Invoke] \<and> res = (Some r, Some err) \<and> s' = (out, w'))
         \<and> length (sent w') = Suc (length (sent w))"
    using more last one by blast
  qed
  show ?thesis
    using first second by (rule conjI)
qed

theorem status_code_classification_witness:
  "\<not> LocalMode (options example_transport)
   \<and> marshal (scripted_env [status 404]) () = Inr ''{}''
   \<and> fst (doRequest (scripted_env [status 404]) example_transport ''/log_event'' ''{}''
            example_world) = status 404
   \<and> \<not> (200 \<le> (404::int) \<and> (404::int) < 300)
   \<and> (404::int) \<notin> {408, 500, 502, 503, 504, 522, 524, 599}
   \<and> snd (snd (postRequestInternal (scripted_env [status 404]) example_transport
                 ''/log_event'' () () 5 time_Second example_world)) = [Invoke]
   \<and> fst (postRequestInternal (scripted_env [status 404]) example_transport
            ''/log_event'' () () 5 time_Second example_world)
       = (Some \<lparr>resp_StatusCode = 404, resp_Body = ''{}''\<rparr>,
          Some ''http response error code: 404'')
   \<and> fst (doRequest (scripted_env [status 503, status 200]) example_transport ''/log_event''
            ''{}'' example_world) = status 503
   \<and> (0::int) < 5
   \<and> (503::int) \<in> {408, 500, 502, 503, 504, 522, 524, 599}
   \<and> 1 < attempts (snd (snd (postRequestInternal (scripted_env [status 503, status 200])
                   example_transport ''/log_event'' () () 5 time_Second example_world)))
   \<and> fst (doRequest (scripted_env [status 200]) example_transport ''/log_event''
            ''{}'' example_world) = status 200
   \<and> snd (snd (postRequestInternal (scripted_env [status 200]) example_transport
                 ''/log_event'' () () 5 time_Second example_world)) = [Invoke]
   \<and> fst (doRequest (scripted_env [redirect_failure, status 200]) example_transport
            ''/log_event'' ''{}'' example_world) = redirect_failure
   \<and> take 2 (snd (snd (postRequestInternal (scripted_env [redirect_failure, status 200])
                   example_transport ''/log_event'' () () 5 time_Second example_world)))
       = [Invoke, Sleep time_Second]"
proof -
  have h1: "\<not> LocalMode (options example_transport)"
    by (simp add: example_transport_def)
  have h2: "marshal (scripted_env script) () = Inr ''{}''" for script
    by (simp add: scripted_env_def)
  have h3: "doRequest (scripted_env (x # script)) example_transport ''/log_event''
              ''{}'' example_world
        = (x, snd (doRequest (scripted_env (x # script)) example_transport ''/log_event''
              ''{}'' example_world))" for x script
    by (simp add: doRequest_def scripted_env_def example_world_def)
  have run: "postRequestInternal env example_transport ''/log_event'' () () 5 time_Second
               example_world
        = (fst (postRequestInternal env example_transport ''/log_event'' () () 5 time_Second
               example_world),
           fst (snd (postRequestInternal env example_transport ''/log_event'' () () 5
               time_Second example_world)),
           snd (snd (postRequestInternal env example_transport ''/log_event'' () () 5
               time_Second example_world)))" for env :: "(unit, unit) http_env"
    by simp
  have d: "fst (doRequest (scripted_env (x # script)) example_transport ''/log_event''
              ''{}'' example_world) = x" for x script
    by (simp add: doRequest_def scripted_env_def example_world_def)
  have f: "format_int 404 = ''404''"
    by code_simp
  note c404 = status_code_classification [OF h1 h2 h3 [of "status 404" "[]"] run,
      where code = 404
        and r = "\<lparr>resp_StatusCode = 404, resp_Body = ''{}''\<rparr>"]
  note c503 = status_code_classification [OF h1 h2 h3 [of "status 503" "[status 200]"] run,
      where code = 503
        and r = "\<lparr>resp_StatusCode = 503, resp_Body = ''{}''\<rparr>"]
  note c200 = status_code_classification [OF h1 h2 h3 [of "status 200" "[]"] run,
      where code = 200
        and r = "\<lparr>resp_StatusCode = 200, resp_Body = ''{}''\<rparr>"]
  note c302 = status_code_classification [OF h1 h2 h3 [of redirect_failure "[status 200]"] run,
      where r = "\<lparr>resp_StatusCode = 302, resp_Body = []\<rparr>"
        and err = "''stopped after 10 redirects''"]
  have a: "snd (snd (postRequestInternal (scripted_env [status 404]) example_transport
                 ''/log_event'' () () 5 time_Second example_world)) = [Invoke]"
    "fst (postRequestInternal (scripted_env [status 404]) example_transport
            ''/log_event'' () () 5 time_Second example_world)
       = (Some \<lparr>resp_StatusCode = 404, resp_Body = ''{}''\<rparr>,
          Some ''http response error code: 404'')"
    using c404 by (simp_all add: status_def f)
  have b: "1 < attempts (snd (snd (postRequestInternal (scripted_env [status 503, status 200])
                   example_transport ''/log_event'' () () 5 time_Second example_world)))"
    using c503 by (simp add: status_def)
  have c: "snd (snd (postRequestInternal (scripted_env [status 200]) example_transport
                 ''/log_event'' () () 5 time_Second example_world)) = [Invoke]"
    using c200 by (simp add: status_def)
  have e: "take 2 (snd (snd (postRequestInternal (scripted_env [redirect_failure, status 200])
                   example_transport ''/log_event'' () () 5 time_Second example_world)))
       = [Invoke, Sleep time_Second]"
    using c302 by (simp add: redirect_failure_def)
  show ?thesis
    using h1 h2 [of "[status 404]"] d a b c e by simp
qed

text \<open>
  The claim as written fails for a response that comes with an error: the client stops
  at a redirect and returns the 302 response together with the error. The code 302 is
  outside 2xx and outside the set, five retries remain, and the run sleeps one second
  and makes a second attempt.
\<close>

theorem error_response_retried_counterexample:
  "fst (doRequest (scripted_env [redirect_failure, status 200]) example_transport
          ''/log_event'' ''{}'' example_world)
     = ReceivedWithError \<lparr>resp_StatusCode = 302, resp_Body = []\<rparr> ''stopped after 10 redirects''
   \<and> \<not> (200 \<le> (302::int) \<and> (302::int) < 300)
   \<and> (302::int) \<notin> {408, 500, 502, 503, 504, 522, 524, 599}
   \<and> attempts (snd (snd (retryablePostRequest (scripted_env [redirect_failure, status 200])
                            example_transport ''/log_event'' () () 5 example_world))) = 2
   \<and> sleeps (snd (snd (retryablePostRequest (scripted_env [redirect_failure, status 200])
                          example_transport ''/log_event'' () () 5 example_world)))
       = [1000000000]"
  by code_simp

text \<open>
  C6. With the transport's \<open>LocalMode\<close> set, \<open>postRequest\<close> and \<open>retryablePostRequest\<close>
  return a nil response and a nil error, for every endpoint, payload, budget and
  environment: the output slot and the world (so the list of requests sent) are
  unchanged and the trace is empty, no attempt and no sleep. The environment is any:
  also one in which serializing the payload fails.
\<close>

theorem local_mode_short_circuit:
  assumes "LocalMode (options t)"
  shows "postRequest env t ep inp out w = ((None, None), (out, w), [])
       \<and> retryablePostRequest env t ep inp out retries w = ((None, None), (out, w), [])"
  using assms by (simp add: postRequest_def retryablePostRequest_def postRequestInternal_def)

theorem local_mode_short_circuit_witness:
  "LocalMode (options local_transport)
   \<and> marshal broken_env () = Inl ''json: unsupported type''
   \<and> postRequest broken_env local_transport ''/log_event'' () () example_world
       = ((None, None), ((), example_world), [])
   \<and> retryablePostRequest broken_env local_transport ''/log_event'' () () 5 example_world
       = ((None, None), ((), example_world), [])"
proof -
  have h: "LocalMode (options local_transport)"
    by (simp add: local_transport_def)
  show ?thesis
    using h local_mode_short_circuit [OF h, of broken_env "''/log_event''" "()" "()"
        example_world 5]
    by (simp add: broken_env_def)
qed

section \<open>Properties of the diagnostics timeline\<close>

lemma timeline_update:
  "timeline r (update_timeline r' f d) = (if r = r' then f (timeline r d) else timeline r d)"
  by (cases r; cases r') simp_all

lemma diag_logProcess: "diag (diagnosticsBase_logProcess d msg w) = diag w"
  by (simp add: diagnosticsBase_logProcess_def)

text \<open>What a call of \<open>mark\<close> does to each timeline, whether it panics or not.\<close>

lemma mark_markers:
  "markers (timeline r (diag (snd (mark m w)))) =
     markers (timeline r (diag w))
       @ (if diagnostics m = r then [m\<lparr>Timestamp := unix_seconds w * 1000\<rparr>] else [])"
  by (auto simp: mark_def Let_def timeline_update diag_logProcess split: option.splits)

lemma marker_message_Timestamp [simp]:
  "marker_message (m\<lparr>Timestamp := ts\<rparr>) = marker_message m"
  by (simp add: marker_message_def cong: option.case_cong if_cong)

lemma mark_outcome:
  "fst (mark m w)
     = (case marker_message m of None \<Rightarrow> Panic nil_dereference | Some msg \<Rightarrow> Normal)"
  by (simp add: mark_def Let_def split: option.splits)

lemma unix_seconds_clock [simp]: "unix_seconds (w\<lparr>clock := t\<rparr>) = word_of_int (t div 1000)"
  by (simp add: unix_seconds_def)

lemma sint_whole_seconds:
  assumes "0 \<le> t" "t < 2 ^ 63"
  shows "sint (word_of_int (t div 1000) * 1000 :: int64) = t div 1000 * 1000"
proof -
  have "0 \<le> t div 1000 * 1000" "t div 1000 * 1000 \<le> t"
    using assms(1) by simp_all
  then have "sint (word_of_int (t div 1000 * 1000) :: int64) = t div 1000 * 1000"
    using assms(2) by (intro sint_word_of_int64) simp_all
  then show ?thesis by simp
qed

lemma constants_distinct:
  "OverallKey \<noteq> DownloadConfigSpecsKey" "OverallKey \<noteq> DataStoreConfigSpecsKey"
  "DownloadConfigSpecsKey \<noteq> DataStoreConfigSpecsKey"
  "NetworkRequestStep \<noteq> ProcessStep" "FetchStep \<noteq> ProcessStep"
  "StartAction \<noteq> EndAction"
  by (simp_all add: OverallKey_def DownloadConfigSpecsKey_def DataStoreConfigSpecsKey_def
      NetworkRequestStep_def ProcessStep_def FetchStep_def StartAction_def EndAction_def)

text \<open>Where building the log line reaches a nil pointer.\<close>

lemma marker_message_None_iff:
  "marker_message m = None \<longleftrightarrow>
      Key m = None
    \<or> (Key m = Some OverallKey \<and> Action m = None)
    \<or> (Key m = Some DownloadConfigSpecsKey
        \<and> (Step m = None
           \<or> (Step m \<in> {Some NetworkRequestStep, Some ProcessStep}
              \<and> (Action m = None \<or> (Action m = Some EndAction \<and> Success m = None)))))
    \<or> (Key m = Some DataStoreConfigSpecsKey
        \<and> (Step m = None
           \<or> (Step m \<in> {Some FetchStep, Some ProcessStep}
              \<and> (Action m = None \<or> (Action m = Some EndAction \<and> Success m = None)))))"
  using constants_distinct
  by (cases "Key m"; cases "Step m"; cases "Action m"; cases "Success m")
    (auto simp: marker_message_def)

lemma mark_keeps:
  "posts (snd (mark m w)) = posts w" "errors (snd (mark m w)) = errors w"
  "sent (snd (mark m w)) = sent w" "clock (snd (mark m w)) = clock w"
  "goroutine_stack (snd (mark m w)) = goroutine_stack w"
  by (simp_all add: mark_def Let_def diagnosticsBase_logProcess_def split: option.splits)

section \<open>Claims about the diagnostics timeline\<close>

text \<open>
  C7. For every timeline, whatever markers it holds: after \<open>clearMarkers\<close>, \<open>serialize\<close>
  returns the map with the timeline's own context under \<open>context\<close> and the empty
  sequence of markers under \<open>markers\<close>, and nothing else.
\<close>

theorem clearMarkers_then_serialize:
  "serialize (clearMarkers d)
     = [''context'' \<mapsto> ContextValue (context_tag d), ''markers'' \<mapsto> MarkersValue []]
   \<and> context_tag (clearMarkers d) = context_tag d
   \<and> markers (clearMarkers d) = []"
  by (simp add: serialize_def clearMarkers_def)

text \<open>
  C8. On each timeline the markers stand in the order in which their \<open>mark\<close> calls
  completed: after a run of calls the timeline holds what it held before, followed by
  the stamped copies of the markers that point to it, in the order of the calls. In
  particular, on either context, \<open>start\<close> and then \<open>end\<close> with \<open>success(true)\<close> of
  \<open>download_config_specs\<close>, \<open>network_request\<close> append two markers with that key and
  that step, the actions \<open>start\<close> then \<open>end\<close>, and timestamps that do not decrease,
  provided the clock did not run backwards between the two calls (and reads a
  non-negative \<open>int64\<close> number of milliseconds).
\<close>

theorem markers_in_completion_order:
  "markers (timeline r (diag (mark_all calls w)))
     = markers (timeline r (diag w))
        @ map (\<lambda>(t, m). m\<lparr>Timestamp := word_of_int (t div 1000) * 1000\<rparr>)
            (filter (\<lambda>(t, m). diagnostics m = r) calls)
   \<and> (0 \<le> t1 \<and> t1 \<le> t2 \<and> t2 < 2 ^ 63 \<longrightarrow>
        (\<exists>m1 m2.
           markers (timeline r (diag (mark_all
              [(t1, start (networkRequest (downloadConfigSpecs (new_marker r)))),
               (t2, success True (end' (networkRequest (downloadConfigSpecs (new_marker r)))))]
              w)))
             = markers (timeline r (diag w)) @ [m1, m2]
         \<and> Key m1 = Some DownloadConfigSpecsKey \<and> Key m2 = Some DownloadConfigSpecsKey
         \<and> Step m1 = Some NetworkRequestStep \<and> Step m2 = Some NetworkRequestStep
         \<and> Action m1 = Some StartAction \<and> Action m2 = Some EndAction
         \<and> Action m1 \<noteq> Action m2
         \<and> Success m2 = Some True
         \<and> sint (Timestamp m1) = t1 div 1000 * 1000
         \<and> sint (Timestamp m2) = t2 div 1000 * 1000
         \<and> sint (Timestamp m1) \<le> sint (Timestamp m2)))"
proof (intro conjI impI)
  show "markers (timeline r (diag (mark_all calls w)))
     = markers (timeline r (diag w))
        @ map (\<lambda>(t, m). m\<lparr>Timestamp := word_of_int (t div 1000) * 1000\<rparr>)
            (filter (\<lambda>(t, m). diagnostics m = r) calls)"
  proof (induction calls arbitrary: w)
    case Nil
    then show ?case by simp
  next
    case (Cons c calls)
    obtain t m where c: "c = (t, m)" by (cases c)
    show ?case
      by (simp add: c Cons.IH mark_markers)
  qed
next
  assume range: "0 \<le> t1 \<and> t1 \<le> t2 \<and> t2 < 2 ^ 63"
  let ?m1 = "(start (networkRequest (downloadConfigSpecs (new_marker r))))
               \<lparr>Timestamp := word_of_int (t1 div 1000) * 1000\<rparr>"
  let ?m2 = "(success True (end' (networkRequest (downloadConfigSpecs (new_marker r)))))
               \<lparr>Timestamp := word_of_int (t2 div 1000) * 1000\<rparr>"
  have s1: "sint (Timestamp ?m1) = t1 div 1000 * 1000"
    using range by (simp add: sint_whole_seconds)
  have s2: "sint (Timestamp ?m2) = t2 div 1000 * 1000"
    using range by (simp add: sint_whole_seconds)
  have le: "t1 div 1000 * 1000 \<le> t2 div 1000 * 1000"
    using range by (simp add: zdiv_mono1)
  have fields:
    "Key ?m1 = Some DownloadConfigSpecsKey" "Key ?m2 = Some DownloadConfigSpecsKey"
    "Step ?m1 = Some NetworkRequestStep" "Step ?m2 = Some NetworkRequestStep"
    "Action ?m1 = Some StartAction" "Action ?m2 = Some EndAction"
    "Success ?m2 = Some True" "diagnostics ?m1 = r" "diagnostics ?m2 = r"
    by (simp_all add: start_def end'_def success_def networkRequest_def
        downloadConfigSpecs_def new_marker_def)
  have ne: "Action ?m1 \<noteq> Action ?m2"
    by (simp add: fields StartAction_def EndAction_def)
  have run: "markers (timeline r (diag (mark_all
              [(t1, start (networkRequest (downloadConfigSpecs (new_marker r)))),
               (t2, success True (end' (networkRequest (downloadConfigSpecs (new_marker r)))))]
              w)))
             = markers (timeline r (diag w)) @ [?m1, ?m2]"
    using fields(8,9) by (simp add: mark_markers)
  show "\<exists>m1 m2.
           markers (timeline r (diag (mark_all
              [(t1, start (networkRequest (downloadConfigSpecs (new_marker r)))),
               (t2, success True (end' (networkRequest (downloadConfigSpecs (new_marker r)))))]
              w)))
             = markers (timeline r (diag w)) @ [m1, m2]
         \<and> Key m1 = Some DownloadConfigSpecsKey \<and> Key m2 = Some DownloadConfigSpecsKey
         \<and> Step m1 = Some NetworkRequestStep \<and> Step m2 = Some NetworkRequestStep
         \<and> Action m1 = Some StartAction \<and> Action m2 = Some EndAction
         \<and> Action m1 \<noteq> Action m2
         \<and> Success m2 = Some True
         \<and> sint (Timestamp m1) = t1 div 1000 * 1000
         \<and> sint (Timestamp m2) = t2 div 1000 * 1000
         \<and> sint (Timestamp m1) \<le> sint (Timestamp m2)"
    using run fields(1-7) ne s1 s2 le
    by (intro exI [of _ ?m1] exI [of _ ?m2]) (simp only: simp_thms)
qed

theorem markers_in_completion_order_witness:
  "(0::int) \<le> 1700000000123 \<and> (1700000000123::int) \<le> 1700000001500
   \<and> (1700000001500::int) < 2 ^ 63
   \<and> map (\<lambda>m. (Key m, Step m, Action m, Success m, sint (Timestamp m)))
        (markers (timeline InitDiagnostics (diag (mark_all
           [(1700000000123, start (networkRequest (downloadConfigSpecs (new_marker InitDiagnostics)))),
            (1700000001500,
             success True (end' (networkRequest (downloadConfigSpecs (new_marker InitDiagnostics)))))]
           example_world))))
      = [(Some ''download_config_specs'', Some ''network_request'', Some ''start'', None,
          1700000000000),
         (Some ''download_config_specs'', Some ''network_request'', Some ''end'', Some True,
          1700000001000)]"
proof -
  have ev: "markers (initDiagnostics (diag example_world)) = []"
    by (simp add: example_world_def newDiagnostics_def)
  have d: "diagnostics (start (networkRequest (downloadConfigSpecs (new_marker InitDiagnostics))))
      = InitDiagnostics"
    "diagnostics (success True (end' (networkRequest (downloadConfigSpecs
        (new_marker InitDiagnostics))))) = InitDiagnostics"
    by (simp_all add: success_def end'_def start_def networkRequest_def downloadConfigSpecs_def
        new_marker_def)
  have t: "(1700000000123::int) div 1000 * 1000 = 1700000000000"
    "(1700000001500::int) div 1000 * 1000 = 1700000001000"
    by simp_all
  have c: "DownloadConfigSpecsKey = ''download_config_specs''"
    "NetworkRequestStep = ''network_request''" "StartAction = ''start''" "EndAction = ''end''"
    by (simp_all add: DownloadConfigSpecsKey_def NetworkRequestStep_def StartAction_def
        EndAction_def)
  have n: "Success (start (networkRequest (downloadConfigSpecs (new_marker InitDiagnostics))))
      = None"
    by (simp add: start_def networkRequest_def downloadConfigSpecs_def new_marker_def)
  from markers_in_completion_order
    [of InitDiagnostics
      "[(1700000000123, start (networkRequest (downloadConfigSpecs (new_marker InitDiagnostics)))),
        (1700000001500,
         success True (end' (networkRequest (downloadConfigSpecs (new_marker InitDiagnostics)))))]"
      example_world 1700000000123 1700000001500]
  show ?thesis
    unfolding t c by (auto simp: n d ev)
qed

text \<open>
  C9, as amended. \<open>mark\<close> panics exactly when building the log line reaches a nil
  pointer. \<open>Key\<close> is always read, so a marker with no key selector panics. \<open>Step\<close> is
  read only for the keys \<open>download_config_specs\<close> and \<open>data_store_config_specs\<close>;
  \<open>Action\<close> only for the key \<open>overall\<close> and for those two keys with a step that has
  messages (\<open>network_request\<close> or \<open>process\<close> for the first, \<open>fetch\<close> or \<open>process\<close> for the
  second); \<open>Success\<close> only there and when the action is \<open>end\<close>. So a key, an action, a step
  for those two keys and a success tag when their action is \<open>end\<close> are enough for \<open>mark\<close>
  not to panic, but they are not all needed.
\<close>

theorem mark_panics_iff:
  "(fst (mark m w) \<noteq> Normal \<longleftrightarrow>
      Key m = None
    \<or> (Key m = Some OverallKey \<and> Action m = None)
    \<or> (Key m = Some DownloadConfigSpecsKey
        \<and> (Step m = None
           \<or> (Step m \<in> {Some NetworkRequestStep, Some ProcessStep}
              \<and> (Action m = None \<or> (Action m = Some EndAction \<and> Success m = None)))))
    \<or> (Key m = Some DataStoreConfigSpecsKey
        \<and> (Step m = None
           \<or> (Step m \<in> {Some FetchStep, Some ProcessStep}
              \<and> (Action m = None \<or> (Action m = Some EndAction \<and> Success m = None))))))
   \<and> (Key m = None \<longrightarrow> fst (mark m w) = Panic nil_dereference)
   \<and> (Key m \<noteq> None \<and> Action m \<noteq> None
      \<and> (Key m \<in> {Some DownloadConfigSpecsKey, Some DataStoreConfigSpecsKey} \<longrightarrow>
           Step m \<noteq> None \<and> (Action m = Some EndAction \<longrightarrow> Success m \<noteq> None))
      \<longrightarrow> fst (mark m w) = Normal)"
proof -
  have out: "fst (mark m w) \<noteq> Normal \<longleftrightarrow> marker_message m = None"
    "marker_message m = None \<Longrightarrow> fst (mark m w) = Panic nil_dereference"
    by (auto simp: mark_outcome split: option.splits)
  show ?thesis
    using out marker_message_None_iff [of m] by auto
qed

theorem mark_panics_iff_witness:
  "Key (start initialize) = None
   \<and> fst (mark (start initialize) example_world) = Panic nil_dereference
   \<and> fst (mark (start initialize) example_world) \<noteq> Normal
   \<and> Key (success True (end' (networkRequest (downloadConfigSpecs initialize)))) \<noteq> None
   \<and> Action (success True (end' (networkRequest (downloadConfigSpecs initialize)))) \<noteq> None
   \<and> Step (success True (end' (networkRequest (downloadConfigSpecs initialize)))) \<noteq> None
   \<and> Success (success True (end' (networkRequest (downloadConfigSpecs initialize)))) \<noteq> None
   \<and> fst (mark (success True (end' (networkRequest (downloadConfigSpecs initialize))))
            example_world) = Normal"
proof -
  have a: "Key (start initialize) = None"
    by (simp add: start_def initialize_def new_marker_def)
  have b: "Key (success True (end' (networkRequest (downloadConfigSpecs initialize))))
      = Some DownloadConfigSpecsKey"
    "Action (success True (end' (networkRequest (downloadConfigSpecs initialize))))
      = Some EndAction"
    "Step (success True (end' (networkRequest (downloadConfigSpecs initialize))))
      = Some NetworkRequestStep"
    "Success (success True (end' (networkRequest (downloadConfigSpecs initialize))))
      = Some True"
    by (simp_all add: success_def end'_def networkRequest_def downloadConfigSpecs_def
        initialize_def new_marker_def)
  show ?thesis
    using mark_panics_iff [of "start initialize" example_world]
      mark_panics_iff [of "success True (end' (networkRequest (downloadConfigSpecs initialize)))"
        example_world]
    by (simp add: a b)
qed

text \<open>
  The claim as written fails for a marker with the key \<open>bootstrap\<close> and no action: the
  action is never read for that key, and \<open>mark\<close> returns normally. So does a marker of
  \<open>download_config_specs\<close> with the step \<open>fetch\<close>, no action and no success tag.
\<close>

theorem mark_without_action_counterexample:
  "Key (bootstrap initialize) = Some ''bootstrap''
   \<and> Action (bootstrap initialize) = None
   \<and> fst (mark (bootstrap initialize) example_world) = Normal
   \<and> Action (fetch (downloadConfigSpecs configSync)) = None
   \<and> Success (fetch (downloadConfigSpecs configSync)) = None
   \<and> fst (mark (fetch (downloadConfigSpecs configSync)) example_world) = Normal"
  by code_simp

text \<open>
  C10. Every marker that \<open>mark\<close> appends carries as \<open>Timestamp\<close> the Unix time in whole
  seconds multiplied by 1000: for a clock that reads a non-negative \<open>int64\<close> number of
  milliseconds, the timestamp is that reading rounded down to a multiple of 1000. The
  request header \<open>STATSIG-CLIENT-TIME\<close> of the same moment carries the reading itself.
\<close>

theorem mark_timestamp_whole_seconds:
  assumes "0 \<le> clock w" and "clock w < 2 ^ 63"
  shows "(\<exists>m'. markers (timeline (diagnostics m) (diag (snd (mark m w))))
               = markers (timeline (diagnostics m) (diag w)) @ [m']
             \<and> m' = m\<lparr>Timestamp := unix_seconds w * 1000\<rparr>
             \<and> sint (Timestamp m') = clock w div 1000 * 1000
             \<and> sint (Timestamp m') mod 1000 = 0
             \<and> sint (Timestamp m') \<le> clock w \<and> clock w < sint (Timestamp m') + 1000)
       \<and> (new_request_error env (transport.api t @ ep) = None \<longrightarrow>
            map_of (req_header (last (sent (snd (doRequest env t ep body w)))))
              ''STATSIG-CLIENT-TIME'' = Some (format_int (clock w)))"
proof -
  have ts: "sint (unix_seconds w * 1000) = clock w div 1000 * 1000"
    using assms by (simp add: unix_seconds_def sint_whole_seconds)
  have "sint (getUnixMilli w) = clock w"
    using assms by (simp add: getUnixMilli_def sint_word_of_int64)
  then have hdr: "new_request_error env (transport.api t @ ep) = None \<Longrightarrow>
      map_of (req_header (last (sent (snd (doRequest env t ep body w)))))
        ''STATSIG-CLIENT-TIME'' = Some (format_int (clock w))"
    by (simp add: doRequest_def Let_def)
  have lo: "clock w div 1000 * 1000 \<le> clock w"
    by simp
  have hi: "clock w < clock w div 1000 * 1000 + 1000"
    using div_mult_mod_eq [of "clock w" 1000] pos_mod_bound [of 1000 "clock w"] by linarith
  show ?thesis
    using ts hdr lo hi by (simp add: mark_markers)
qed

theorem mark_timestamp_whole_seconds_witness:
  "0 \<le> clock example_world \<and> clock example_world < 2 ^ 63
   \<and> clock example_world = 1700000000123
   \<and> map (\<lambda>m. sint (Timestamp m))
        (markers (timeline InitDiagnostics
           (diag (snd (mark (start (overall initialize)) example_world)))))
       = [1700000000000]
   \<and> new_request_error (scripted_env []) (transport.api example_transport @ ''/log_event'')
       = None
   \<and> map_of (req_header (last (sent (snd (doRequest (scripted_env []) example_transport
                 ''/log_event'' ''{}'' example_world)))))
        ''STATSIG-CLIENT-TIME'' = Some ''1700000000123''"
proof -
  have h: "0 \<le> clock example_world" "clock example_world < 2 ^ 63"
    "clock example_world = 1700000000123"
    by (simp_all add: example_world_def)
  have r: "diagnostics (start (overall initialize)) = InitDiagnostics"
    by (simp add: start_def overall_def initialize_def new_marker_def)
  have e: "markers (initDiagnostics (diag example_world)) = []"
    by (simp add: example_world_def newDiagnostics_def)
  have n: "new_request_error (scripted_env []) (transport.api example_transport @ ''/log_event'')
       = None"
    by (simp add: scripted_env_def)
  have f: "format_int 1700000000123 = ''1700000000123''"
    by code_simp
  show ?thesis
    using h n
      mark_timestamp_whole_seconds [OF h(1,2), of "start (overall initialize)"
        "scripted_env []" example_transport "''/log_event''" "''{}''"]
    by (auto simp: r e f)
qed

section \<open>Properties of the error boundary\<close>

lemma logException_seen:
  "seen e (signature x) \<Longrightarrow> logException env x (e, w) = (e, w)"
  by (simp add: logException_def checkSeen_def signature_def)

lemma logException_boundary:
  "fst (logException env x (e, w)) = e\<lparr>seen := (seen e)(signature x := True)\<rparr>"
proof (cases "seen e (signature x)")
  case True
  have "(seen e)(signature x := True) = seen e"
    using True by (simp add: fun_upd_idem_iff)
  then show ?thesis
    using True by (simp add: logException_seen)
next
  case False
  then show ?thesis
    by (simp add: logException_def checkSeen_def signature_def Let_def
        split: sum.splits option.splits)
qed

lemma logException_posts:
  "\<exists>new. posts (snd (logException env x (e, w))) = posts w @ new
     \<and> length new \<le> 1
     \<and> (seen e (signature x) \<longrightarrow> new = [])
     \<and> (\<not> seen e (signature x) \<and> reports_succeed env e \<longrightarrow>
          (\<exists>req. new = [req] \<and> req_method req = ''POST''
             \<and> req_url req = errorBoundary.api e @ endpoint e
             \<and> marshal_report env
                 \<lparr>Exception = signature x,
                  Info = take 1024 (goroutine_stack w @ replicate 1024 (CHR 0x00))\<rparr>
               = Inr (req_body req)))"
proof (cases "seen e (signature x)")
  case True
  then show ?thesis
    by (simp add: logException_seen)
next
  case False
  show ?thesis
  proof (cases "reports_succeed env e")
    case True
    then obtain bodyString where
      "marshal_report env
         \<lparr>Exception = signature x,
          Info = take 1024 (goroutine_stack w @ replicate 1024 (CHR 0x00))\<rparr> = Inr bodyString"
      and "report_request_error env (errorBoundary.api e @ endpoint e) = None"
      unfolding reports_succeed_def by blast
    then show ?thesis
      using False True
      by (simp add: logException_def checkSeen_def signature_def Let_def)
  next
    case no: False
    show ?thesis
      using False no
      by (simp add: logException_def checkSeen_def signature_def Let_def
          split: sum.splits option.splits)
  qed
qed

lemma logException_keeps:
  "errors (snd (logException env x (e, w))) = errors w"
  "diag (snd (logException env x (e, w))) = diag w"
  "goroutine_stack (snd (logException env x (e, w))) = goroutine_stack w"
  "clock (snd (logException env x (e, w))) = clock w"
  by (simp_all add: logException_def checkSeen_def Let_def split: sum.splits option.splits)

lemma reports_succeed_seen [simp]:
  "reports_succeed env (e\<lparr>seen := f\<rparr>) = reports_succeed env e"
  by (simp add: reports_succeed_def)

lemma unseen_insert:
  assumes "finite A" and "\<not> f a"
  shows "card {s \<in> insert a A. \<not> f s} = Suc (card {s \<in> A. \<not> (f(a := True)) s})"
proof -
  have "{s \<in> insert a A. \<not> f s} = insert a {s \<in> A. \<not> (f(a := True)) s}"
    using assms(2) by auto
  moreover have "a \<notin> {s \<in> A. \<not> (f(a := True)) s}"
    by simp
  moreover have "finite {s \<in> A. \<not> (f(a := True)) s}"
    using assms(1) by simp
  ultimately show ?thesis
    by simp
qed

lemma unseen_seen:
  assumes "f a"
  shows "{s \<in> insert a A. \<not> f s} = {s \<in> A. \<not> (f(a := True)) s}"
  using assms by auto

text \<open>A run of \<open>logException\<close> calls: one POST for each signature not seen before, at most.\<close>

lemma logException_all_posts:
  "\<exists>new. posts (snd (logException_all env xs (e, w))) = posts w @ new
     \<and> length new \<le> card {s \<in> signature ` set xs. \<not> seen e s}
     \<and> (reports_succeed env e \<longrightarrow>
          length new = card {s \<in> signature ` set xs. \<not> seen e s})"
proof (induction xs arbitrary: e w)
  case Nil
  then show ?case by simp
next
  case (Cons x xs)
  obtain e1 w1 where step: "logException env x (e, w) = (e1, w1)"
    by (cases "logException env x (e, w)")
  have e1: "e1 = e\<lparr>seen := (seen e)(signature x := True)\<rparr>"
    using logException_boundary [of env x e w] step by simp
  obtain new1 where new1: "posts w1 = posts w @ new1" "length new1 \<le> 1"
    "seen e (signature x) \<longrightarrow> new1 = []"
    "\<not> seen e (signature x) \<and> reports_succeed env e \<longrightarrow> length new1 = 1"
    using logException_posts [of env x e w] step by auto
  obtain new2 where new2: "posts (snd (logException_all env xs (e1, w1))) = posts w1 @ new2"
    "length new2 \<le> card {s \<in> signature ` set xs. \<not> seen e1 s}"
    "reports_succeed env e1 \<longrightarrow> length new2 = card {s \<in> signature ` set xs. \<not> seen e1 s}"
    using Cons.IH [of e1 w1] by blast
  have fin: "finite (signature ` set xs)"
    by simp
  have count: "card {s \<in> signature ` set (x # xs). \<not> seen e s}
      = (if seen e (signature x) then 0 else 1) + card {s \<in> signature ` set xs. \<not> seen e1 s}"
  proof (cases "seen e (signature x)")
    case True
    then show ?thesis
      using unseen_seen [where f = "seen e" and a = "signature x"
          and A = "signature ` set xs", OF True]
      by (simp add: e1)
  next
    case False
    then show ?thesis
      using unseen_insert [where f = "seen e" and a = "signature x"
          and A = "signature ` set xs", OF fin False]
      by (simp add: e1)
  qed
  have "posts (snd (logException_all env (x # xs) (e, w))) = posts w @ (new1 @ new2)"
    using step new1(1) new2(1) by simp
  moreover have "length (new1 @ new2) \<le> card {s \<in> signature ` set (x # xs). \<not> seen e s}"
    using new1(2,3) new2(2) unfolding count by (cases "seen e (signature x)") auto
  moreover have "reports_succeed env e \<longrightarrow>
      length (new1 @ new2) = card {s \<in> signature ` set (x # xs). \<not> seen e s}"
    using new1(3,4) new2(3) unfolding count by (cases "seen e (signature x)") (auto simp: e1)
  ultimately show ?case
    by blast
qed

lemma logException_all_seen:
  "seen (fst (logException_all env xs (e, w))) s \<longleftrightarrow> seen e s \<or> s \<in> signature ` set xs"
proof (induction xs arbitrary: e w)
  case Nil
  then show ?case by simp
next
  case (Cons x xs)
  obtain e1 w1 where step: "logException env x (e, w) = (e1, w1)"
    by (cases "logException env x (e, w)")
  have e1: "e1 = e\<lparr>seen := (seen e)(signature x := True)\<rparr>"
    using logException_boundary [of env x e w] step by simp
  show ?case
    using Cons.IH [of e1 w1] step by (auto simp: e1)
qed

section \<open>Claims about the error boundary\<close>

text \<open>
  C4. For every run of \<open>logException\<close> calls on one boundary: the POSTs of the run are at
  most one for each failure signature (the rendered message, \<open>Unknown\<close> for a nil
  failure) that the boundary had not seen before, and exactly one for each when the
  report can be built. A call with a signature not seen before sends one POST to the
  collector URL, with the signature as the exception of its body; a call with a
  signature seen before sends nothing and changes nothing, so a second call with the
  same failure sends nothing. The seen set only grows: it holds what it held before and
  the signatures of the run.
\<close>

theorem logException_reports_once:
  "(\<exists>new. posts (snd (logException_all env xs (e, w))) = posts w @ new
      \<and> length new \<le> card {s \<in> signature ` set xs. \<not> seen e s}
      \<and> (reports_succeed env e \<longrightarrow>
           length new = card {s \<in> signature ` set xs. \<not> seen e s}))
   \<and> (\<forall>s. seen (fst (logException_all env xs (e, w))) s
          \<longleftrightarrow> seen e s \<or> s \<in> signature ` set xs)
   \<and> (seen e (signature x) \<longrightarrow> logException env x (e, w) = (e, w))
   \<and> (\<not> seen e (signature x) \<and> reports_succeed env e \<longrightarrow>
        (\<exists>req. posts (snd (logException env x (e, w))) = posts w @ [req]
           \<and> req_method req = ''POST''
           \<and> req_url req = errorBoundary.api e @ endpoint e
           \<and> marshal_report env
               \<lparr>Exception = signature x,
                Info = take 1024 (goroutine_stack w @ replicate 1024 (CHR 0x00))\<rparr>
             = Inr (req_body req)))
   \<and> logException env x (logException env x (e, w)) = logException env x (e, w)
   \<and> signature None = ''Unknown'' \<and> signature (Some msg) = msg"
proof -
  obtain e1 w1 where step: "logException env x (e, w) = (e1, w1)"
    by (cases "logException env x (e, w)")
  have "seen e1 (signature x)"
    using logException_boundary [of env x e w] step by simp
  then have twice: "logException env x (logException env x (e, w)) = logException env x (e, w)"
    by (simp add: step logException_seen)
  have first: "\<not> seen e (signature x) \<and> reports_succeed env e \<longrightarrow>
        (\<exists>req. posts (snd (logException env x (e, w))) = posts w @ [req]
           \<and> req_method req = ''POST''
           \<and> req_url req = errorBoundary.api e @ endpoint e
           \<and> marshal_report env
               \<lparr>Exception = signature x,
                Info = take 1024 (goroutine_stack w @ replicate 1024 (CHR 0x00))\<rparr>
             = Inr (req_body req))"
    using logException_posts [of env x e w] by auto
  show ?thesis
    using logException_all_posts [of env xs e w] logException_all_seen [of env xs e w]
      logException_seen [of e x env w] first twice
    by (simp add: signature_def)
qed

theorem logException_reports_once_witness:
  "reports_succeed example_eb_env example_boundary
   \<and> \<not> seen example_boundary (signature (Some ''boom''))
   \<and> length (posts (snd (logException_all example_eb_env
         [Some ''boom'', None, Some ''boom'', Some ''bang'', None]
         (example_boundary, example_world)))) = 3
   \<and> length (posts (snd (logException example_eb_env (Some ''boom'')
         (example_boundary, example_world)))) = 1
   \<and> logException example_eb_env (Some ''boom'')
         (logException example_eb_env (Some ''boom'') (example_boundary, example_world))
       = logException example_eb_env (Some ''boom'') (example_boundary, example_world)
   \<and> seen (fst (logException_all example_eb_env
         [Some ''boom'', None, Some ''boom'', Some ''bang'', None]
         (example_boundary, example_world))) ''Unknown''"
proof -
  have ok: "reports_succeed example_eb_env example_boundary"
    by (simp add: reports_succeed_def example_eb_env_def)
  have fresh: "seen example_boundary = (\<lambda>_. False)"
    by (simp add: example_boundary_def newErrorBoundary_def Let_def)
  have empty: "posts example_world = []"
    by (simp add: example_world_def)
  have "{s \<in> signature ` set [Some ''boom'', None, Some ''boom'', Some ''bang'', None].
          \<not> seen example_boundary s} = {''boom'', ''Unknown'', ''bang''}"
    by (auto simp: fresh signature_def)
  then have three:
    "card {s \<in> signature ` set [Some ''boom'', None, Some ''boom'', Some ''bang'', None].
             \<not> seen example_boundary s} = 3"
    by simp
  note run = logException_reports_once [of example_eb_env
        "[Some ''boom'', None, Some ''boom'', Some ''bang'', None]"
        example_boundary example_world "Some ''boom''"]
  obtain new where "posts (snd (logException_all example_eb_env
         [Some ''boom'', None, Some ''boom'', Some ''bang'', None]
         (example_boundary, example_world))) = posts example_world @ new"
    and "reports_succeed example_eb_env example_boundary \<longrightarrow> length new = 3"
    using run [THEN conjunct1] unfolding three by blast
  then have a: "length (posts (snd (logException_all example_eb_env
         [Some ''boom'', None, Some ''boom'', Some ''bang'', None]
         (example_boundary, example_world)))) = 3"
    using ok by (simp add: empty)
  have b: "seen (fst (logException_all example_eb_env
         [Some ''boom'', None, Some ''boom'', Some ''bang'', None]
         (example_boundary, example_world))) ''Unknown''"
    using run [THEN conjunct2, THEN conjunct1] by (simp add: signature_def)
  have n: "\<not> seen example_boundary (signature (Some ''boom''))"
    by (simp add: fresh)
  obtain req where "posts (snd (logException example_eb_env (Some ''boom'')
         (example_boundary, example_world))) = posts example_world @ [req]"
    using run [THEN conjunct2, THEN conjunct2, THEN conjunct2, THEN conjunct1] n ok by blast
  then have c: "length (posts (snd (logException example_eb_env (Some ''boom'')
         (example_boundary, example_world)))) = 1"
    by (simp add: empty)
  have d: "logException example_eb_env (Some ''boom'')
         (logException example_eb_env (Some ''boom'') (example_boundary, example_world))
       = logException example_eb_env (Some ''boom'') (example_boundary, example_world)"
    using run [THEN conjunct2, THEN conjunct2, THEN conjunct2, THEN conjunct2, THEN conjunct1] .
  show ?thesis
    using ok n a c d b by (intro conjI)
qed

subsection \<open>The wrappers\<close>

lemma builder_fields [simp]:
  "Key (start m) = Key m" "Key (end' m) = Key m" "Key (success b m) = Key m"
  "Action (start m) = Some StartAction" "Action (end' m) = Some EndAction"
  "Action (success b m) = Action m"
  "diagnostics (start m) = diagnostics m" "diagnostics (end' m) = diagnostics m"
  "diagnostics (success b m) = diagnostics m"
  by (simp_all add: start_def end'_def success_def)

lemma mark_plain:
  assumes "plain_key g" and "Key m = Key g" and "Action m \<noteq> None"
  shows "mark m w = (Normal, snd (mark m w))"
proof -
  have "marker_message m \<noteq> None"
    using assms by (auto simp: marker_message_None_iff plain_key_def)
  then have "fst (mark m w) = Normal"
    by (auto simp: mark_outcome)
  then show ?thesis
    by (simp add: prod_eq_iff)
qed

lemma LogError_keeps [simp]:
  "posts (LogError v w) = posts w" "errors (LogError v w) = errors w @ [v]"
  "diag (LogError v w) = diag w" "clock (LogError v w) = clock w"
  by (simp_all add: LogError_def)

text \<open>The recovery of a panic with the value \<open>v\<close>, from the state the panic left.\<close>

lemma recovered_nil: "recovered env cb zero NilValue (e, u) = (Returns zero, e, u)"
  by (simp add: recovered_def ebRecover_def)

lemma recovered_value:
  assumes "v \<noteq> NilValue"
    and "cb (LogError v (snd (logException env (toError env v) (e, u)))) = (Normal, w')"
  shows "recovered env cb zero v (e, u)
      = (Returns zero, fst (logException env (toError env v) (e, u)), w')"
proof -
  obtain e1 u1 where l: "logException env (toError env v) (e, u) = (e1, u1)"
    by (cases "logException env (toError env v) (e, u)")
  then have "cb (LogError v u1) = (Normal, w')"
    using assms(2) by simp
  then show ?thesis
    using assms(1) by (simp add: recovered_def ebRecover_def l)
qed

text \<open>
  The state after the recovery in a wrapper that marks diagnostics with the marker
  \<open>g\<close>, and in a wrapper with the empty callback.
\<close>

lemma recovered_marked:
  assumes "plain_key g"
  shows "recovered env (mark (success False (end' g))) zero v (e, u)
      = (Returns zero,
         if v = NilValue then (e, u)
         else (fst (logException env (toError env v) (e, u)),
               snd (mark (success False (end' g))
                      (LogError v (snd (logException env (toError env v) (e, u)))))))"
proof (cases "v = NilValue")
  case True
  then show ?thesis
    by (simp add: recovered_nil)
next
  case False
  have "mark (success False (end' g))
          (LogError v (snd (logException env (toError env v) (e, u))))
      = (Normal, snd (mark (success False (end' g))
                        (LogError v (snd (logException env (toError env v) (e, u))))))"
    using assms by (intro mark_plain [of g]) simp_all
  from recovered_value [where cb = "mark (success False (end' g))" and v = v and env = env
      and e = e and u = u and zero = zero, OF False this] False
  show ?thesis
    by simp
qed

lemma recovered_plain:
  "recovered env (\<lambda>u. (Normal, u)) zero v (e, u)
      = (Returns zero,
         if v = NilValue then (e, u)
         else (fst (logException env (toError env v) (e, u)),
               LogError v (snd (logException env (toError env v) (e, u)))))"
proof (cases "v = NilValue")
  case True
  then show ?thesis
    by (simp add: recovered_nil)
next
  case False
  from recovered_value [where cb = "\<lambda>u. (Normal, u)" and v = v and env = env
      and e = e and u = u and zero = zero, OF False refl] False
  show ?thesis
    by simp
qed

lemma effects_marked:
  "recovery_effects env v (e, u)
     (if v = NilValue then (e, u)
      else (fst (logException env (toError env v) (e, u)),
            snd (mark m (LogError v (snd (logException env (toError env v) (e, u)))))))"
  by (simp add: recovery_effects_def mark_keeps logException_keeps)

lemma effects_plain:
  "recovery_effects env v (e, u)
     (if v = NilValue then (e, u)
      else (fst (logException env (toError env v) (e, u)),
            LogError v (snd (logException env (toError env v) (e, u)))))"
  by (simp add: recovery_effects_def logException_keeps)

lemma end_failure_marked:
  "markers (timeline (diagnostics g)
      (diag (snd (mark (success False (end' g))
                    (LogError v (snd (logException env x (e, u))))))))
    = markers (timeline (diagnostics g) (diag u))
        @ [(success False (end' g))\<lparr>Timestamp := unix_seconds u * 1000\<rparr>]"
  by (simp add: mark_markers logException_keeps unix_seconds_def)

text \<open>The common body of the three wrappers that mark diagnostics, for a marker \<open>g\<close>.\<close>

lemma marked_body_panic:
  assumes "plain_key g" and "task (snd (mark (start g) w)) = (Panics v, u)"
  shows "(let on_panic = recovered env (mark (success False (end' g))) zero
          in case mark (start g) w of
               (Panic p, w1) \<Rightarrow> on_panic p (e, w1)
             | (Normal, w1) \<Rightarrow>
                 (case task w1 of
                    (Panics p, w2) \<Rightarrow> on_panic p (e, w2)
                  | (Returns res, w2) \<Rightarrow>
                      (case mark (success True (end' g)) w2 of
                         (Panic p, w3) \<Rightarrow> on_panic p (e, w3)
                       | (Normal, w3) \<Rightarrow> (Returns res, e, w3))))
      = (Returns zero,
         if v = NilValue then (e, u)
         else (fst (logException env (toError env v) (e, u)),
               snd (mark (success False (end' g))
                      (LogError v (snd (logException env (toError env v) (e, u)))))))"
proof -
  have m1: "mark (start g) w = (Normal, snd (mark (start g) w))"
    using assms(1) by (intro mark_plain [of g]) simp_all
  show ?thesis
    unfolding Let_def by (subst m1) (simp add: assms(2) recovered_marked [OF assms(1)])
qed

lemma marked_body_total:
  assumes "plain_key g"
  shows "\<exists>res. fst
         (let on_panic = recovered env (mark (success False (end' g))) zero
          in case mark (start g) w of
               (Panic p, w1) \<Rightarrow> on_panic p (e, w1)
             | (Normal, w1) \<Rightarrow>
                 (case task w1 of
                    (Panics p, w2) \<Rightarrow> on_panic p (e, w2)
                  | (Returns res, w2) \<Rightarrow>
                      (case mark (success True (end' g)) w2 of
                         (Panic p, w3) \<Rightarrow> on_panic p (e, w3)
                       | (Normal, w3) \<Rightarrow> (Returns res, e, w3))))
      = Returns res"
proof -
  obtain r w2 where t: "task (snd (mark (start g) w)) = (r, w2)"
    by (cases "task (snd (mark (start g) w))")
  show ?thesis
  proof (cases r)
    case (Panics p)
    then show ?thesis
      using marked_body_panic [where g = g and task = task and w = w and v = p and u = w2
          and env = env and zero = zero and e = e] assms t
      by simp
  next
    case (Returns b)
    have m1: "mark (start g) w = (Normal, snd (mark (start g) w))"
      using assms by (intro mark_plain [of g]) simp_all
    have m3: "mark (success True (end' g)) w2 = (Normal, snd (mark (success True (end' g)) w2))"
      using assms by (intro mark_plain [of g]) simp_all
    show ?thesis
      unfolding Let_def by (subst m1) (simp add: t Returns, subst m3, simp)
  qed
qed

lemma plain_body_total:
  "\<exists>res. fst
     (case task w of
        (Panics p, w1) \<Rightarrow> recovered env (\<lambda>u. (Normal, u)) zero p (e, w1)
      | (Returns res, w1) \<Rightarrow> (Returns res, e, w1))
     = Returns res"
  by (cases "task w"; cases "fst (task w)") (simp_all add: recovered_plain)

text \<open>
  C5, as amended. Given that the markers of the diagnostics selectors \<open>checkGate\<close>,
  \<open>getConfig\<close> and \<open>getLayer\<close> have a key whose log line needs no step (the two
  wrappers that mark no diagnostics need no condition): no wrapper of the error boundary
  ever panics, whatever the task does. When the task panics in the run at hand, with
  the value \<open>v\<close> and leaving the world \<open>u\<close>, the wrapper returns the zero value of its
  result type (\<open>false\<close> for the gate check). If \<open>v\<close> is not nil, the failure has gone
  through \<open>logException\<close> from \<open>u\<close>, one line for \<open>v\<close> has been added to the error log -
  on every such recovery, also when the report is deduplicated - and a wrapper that
  marks diagnostics has appended its end marker with \<open>success(false)\<close>. If \<open>v\<close> is nil,
  nothing is reported, logged or marked: the boundary and the world are as the panic left
  them. Two gate checks in sequence whose tasks panic with non-nil values of the same
  rendered message: both return \<open>false\<close>, each adds one line to the error log, the
  first sends at most one crash report (exactly one when the signature was not seen
  before and the report can be built), and the second sends none.
\<close>

theorem error_boundary_recovers:
  assumes "plain_key (api_checkGate env)"
    and "task1 (snd (mark (start (api_checkGate env)) w)) = (Panics v1, u1)"
    and "captureCheckGate env task1 (e, w) = (r1, e1, w1)"
    and "task2 (snd (mark (start (api_checkGate env)) w1)) = (Panics v2, u2)"
    and "captureCheckGate env task2 (e1, w1) = (r2, e2, w2)"
    and "v1 \<noteq> NilValue" and "v2 \<noteq> NilValue" and "toError env v1 = toError env v2"
  shows "r1 = Returns False \<and> r2 = Returns False
       \<and> errors w1 = errors u1 @ [v1] \<and> errors w2 = errors u2 @ [v2]
       \<and> (\<exists>new. posts w1 = posts u1 @ new \<and> length new \<le> 1
            \<and> (\<not> seen e (signature (toError env v1)) \<and> reports_succeed env e \<longrightarrow>
                 length new = 1))
       \<and> posts w2 = posts u2
       \<and> (\<forall>task. \<exists>res. fst (captureCheckGate env task (e, w)) = Returns res)
       \<and> (task (snd (mark (start (api_checkGate env)) w)) = (Panics v, u) \<longrightarrow>
            fst (captureCheckGate env task (e, w)) = Returns False
          \<and> recovery_effects env v (e, u) (snd (captureCheckGate env task (e, w)))
          \<and> (v \<noteq> NilValue \<longrightarrow>
               markers (timeline (diagnostics (api_checkGate env))
                  (diag (snd (snd (captureCheckGate env task (e, w))))))
                 = markers (timeline (diagnostics (api_checkGate env)) (diag u))
                     @ [(success False (end' (api_checkGate env)))
                          \<lparr>Timestamp := unix_seconds u * 1000\<rparr>]))
       \<and> (plain_key (api_getConfig env) \<longrightarrow>
            (\<forall>task. \<exists>res. fst (captureGetConfig env zero_config task (e, w)) = Returns res)
          \<and> (task_config (snd (mark (start (api_getConfig env)) w)) = (Panics v, u) \<longrightarrow>
               fst (captureGetConfig env zero_config task_config (e, w)) = Returns zero_config
             \<and> recovery_effects env v (e, u)
                 (snd (captureGetConfig env zero_config task_config (e, w)))
             \<and> (v \<noteq> NilValue \<longrightarrow>
                  markers (timeline (diagnostics (api_getConfig env))
                     (diag (snd (snd (captureGetConfig env zero_config task_config (e, w))))))
                    = markers (timeline (diagnostics (api_getConfig env)) (diag u))
                        @ [(success False (end' (api_getConfig env)))
                             \<lparr>Timestamp := unix_seconds u * 1000\<rparr>])))
       \<and> (plain_key (api_getLayer env) \<longrightarrow>
            (\<forall>task. \<exists>res. fst (captureGetLayer env zero_layer task (e, w)) = Returns res)
          \<and> (task_layer (snd (mark (start (api_getLayer env)) w)) = (Panics v, u) \<longrightarrow>
               fst (captureGetLayer env zero_layer task_layer (e, w)) = Returns zero_layer
             \<and> recovery_effects env v (e, u)
                 (snd (captureGetLayer env zero_layer task_layer (e, w)))
             \<and> (v \<noteq> NilValue \<longrightarrow>
                  markers (timeline (diagnostics (api_getLayer env))
                     (diag (snd (snd (captureGetLayer env zero_layer task_layer (e, w))))))
                    = markers (timeline (diagnostics (api_getLayer env)) (diag u))
                        @ [(success False (end' (api_getLayer env)))
                             \<lparr>Timestamp := unix_seconds u * 1000\<rparr>])))
       \<and> (\<forall>task. \<exists>res.
             fst (captureGetClientInitializeResponse env zero_response task (e, w))
               = Returns res)
       \<and> (task_response w = (Panics v, u) \<longrightarrow>
            fst (captureGetClientInitializeResponse env zero_response task_response (e, w))
              = Returns zero_response
          \<and> recovery_effects env v (e, u)
              (snd (captureGetClientInitializeResponse env zero_response task_response (e, w))))
       \<and> (\<forall>task. \<exists>res. fst (captureVoid env task (e, w)) = Returns res)
       \<and> (task_void w = (Panics v, u) \<longrightarrow>
            fst (captureVoid env task_void (e, w)) = Returns ()
          \<and> recovery_effects env v (e, u) (snd (captureVoid env task_void (e, w))))"
proof -
  have gate: "captureCheckGate env tk (e', w')
      = (Returns False,
         if p = NilValue then (e', u')
         else (fst (logException env (toError env p) (e', u')),
               snd (mark (success False (end' (api_checkGate env)))
                      (LogError p (snd (logException env (toError env p) (e', u')))))))"
    if "tk (snd (mark (start (api_checkGate env)) w')) = (Panics p, u')" for tk e' w' p u'
    using marked_body_panic [where g = "api_checkGate env" and task = tk and w = w'
        and v = p and u = u' and env = env and zero = False and e = e'] assms(1) that
    by (simp add: captureCheckGate_def)
  have first: "r1 = Returns False" "e1 = fst (logException env (toError env v1) (e, u1))"
    "w1 = snd (mark (success False (end' (api_checkGate env)))
                 (LogError v1 (snd (logException env (toError env v1) (e, u1)))))"
    using gate [where tk = task1 and w' = w and p = v1 and u' = u1 and e' = e]
      assms(2,3,6) by simp_all
  have second: "r2 = Returns False"
    "w2 = snd (mark (success False (end' (api_checkGate env)))
                 (LogError v2 (snd (logException env (toError env v2) (e1, u2)))))"
    using gate [where tk = task2 and w' = w1 and p = v2 and u' = u2 and e' = e1]
      assms(4,5,7) by simp_all
  have log1: "errors w1 = errors u1 @ [v1]"
    by (simp add: first(3) mark_keeps logException_keeps)
  have log2: "errors w2 = errors u2 @ [v2]"
    by (simp add: second(2) mark_keeps logException_keeps)
  have p1: "posts w1 = posts (snd (logException env (toError env v1) (e, u1)))"
    by (simp add: first(3) mark_keeps)
  have once: "\<exists>new. posts w1 = posts u1 @ new \<and> length new \<le> 1
      \<and> (\<not> seen e (signature (toError env v1)) \<and> reports_succeed env e \<longrightarrow>
           length new = 1)"
    using logException_posts [of env "toError env v1" e u1] unfolding p1 by auto
  have "seen e1 (signature (toError env v2))"
    using logException_boundary [of env "toError env v1" e u1] first(2) assms(8) by simp
  then have dedup: "posts w2 = posts u2"
    by (simp add: second(2) mark_keeps logException_seen)
  have g_total: "\<forall>task. \<exists>res. fst (captureCheckGate env task (e, w)) = Returns res"
    using marked_body_total [where g = "api_checkGate env" and env = env and zero = False
        and e = e and w = w] assms(1)
    by (simp add: captureCheckGate_def)
  have g_run: "task (snd (mark (start (api_checkGate env)) w)) = (Panics v, u) \<longrightarrow>
            fst (captureCheckGate env task (e, w)) = Returns False
          \<and> recovery_effects env v (e, u) (snd (captureCheckGate env task (e, w)))
          \<and> (v \<noteq> NilValue \<longrightarrow>
               markers (timeline (diagnostics (api_checkGate env))
                  (diag (snd (snd (captureCheckGate env task (e, w))))))
                 = markers (timeline (diagnostics (api_checkGate env)) (diag u))
                     @ [(success False (end' (api_checkGate env)))
                          \<lparr>Timestamp := unix_seconds u * 1000\<rparr>])"
  proof
    assume "task (snd (mark (start (api_checkGate env)) w)) = (Panics v, u)"
    from gate [where tk = task and w' = w and p = v and u' = u and e' = e] this show "fst (captureCheckGate env task (e, w)) = Returns False
          \<and> recovery_effects env v (e, u) (snd (captureCheckGate env task (e, w)))
          \<and> (v \<noteq> NilValue \<longrightarrow>
               markers (timeline (diagnostics (api_checkGate env))
                  (diag (snd (snd (captureCheckGate env task (e, w))))))
                 = markers (timeline (diagnostics (api_checkGate env)) (diag u))
                     @ [(success False (end' (api_checkGate env)))
                          \<lparr>Timestamp := unix_seconds u * 1000\<rparr>])"
      using effects_marked [of env v e u "success False (end' (api_checkGate env))"]
        end_failure_marked [of "api_checkGate env" v env "toError env v" e u]
      by simp
  qed
  have c_all: "plain_key (api_getConfig env) \<longrightarrow>
            (\<forall>task. \<exists>res. fst (captureGetConfig env zero_config task (e, w)) = Returns res)
          \<and> (task_config (snd (mark (start (api_getConfig env)) w)) = (Panics v, u) \<longrightarrow>
               fst (captureGetConfig env zero_config task_config (e, w)) = Returns zero_config
             \<and> recovery_effects env v (e, u)
                 (snd (captureGetConfig env zero_config task_config (e, w)))
             \<and> (v \<noteq> NilValue \<longrightarrow>
                  markers (timeline (diagnostics (api_getConfig env))
                     (diag (snd (snd (captureGetConfig env zero_config task_config (e, w))))))
                    = markers (timeline (diagnostics (api_getConfig env)) (diag u))
                        @ [(success False (end' (api_getConfig env)))
                             \<lparr>Timestamp := unix_seconds u * 1000\<rparr>]))"
  proof (intro impI conjI)
    assume k: "plain_key (api_getConfig env)"
    show "\<forall>task. \<exists>res. fst (captureGetConfig env zero_config task (e, w)) = Returns res"
      using marked_body_total [where g = "api_getConfig env" and env = env
          and zero = zero_config and e = e and w = w] k
      by (simp add: captureGetConfig_def)
    assume t: "task_config (snd (mark (start (api_getConfig env)) w)) = (Panics v, u)"
    have eq: "captureGetConfig env zero_config task_config (e, w)
      = (Returns zero_config,
         if v = NilValue then (e, u)
         else (fst (logException env (toError env v) (e, u)),
               snd (mark (success False (end' (api_getConfig env)))
                      (LogError v (snd (logException env (toError env v) (e, u)))))))"
      using marked_body_panic [where g = "api_getConfig env" and task = task_config
          and w = w and v = v and u = u and env = env and zero = zero_config and e = e] k t
      by (simp add: captureGetConfig_def)
    show "fst (captureGetConfig env zero_config task_config (e, w)) = Returns zero_config"
      by (simp add: eq)
    show "recovery_effects env v (e, u)
            (snd (captureGetConfig env zero_config task_config (e, w)))"
      using effects_marked [of env v e u "success False (end' (api_getConfig env))"]
      by (simp add: eq)
    assume "v \<noteq> NilValue"
    then show "markers (timeline (diagnostics (api_getConfig env))
                     (diag (snd (snd (captureGetConfig env zero_config task_config (e, w))))))
                    = markers (timeline (diagnostics (api_getConfig env)) (diag u))
                        @ [(success False (end' (api_getConfig env)))
                             \<lparr>Timestamp := unix_seconds u * 1000\<rparr>]"
      using end_failure_marked [of "api_getConfig env" v env "toError env v" e u]
      by (simp add: eq)
  qed
  have l_all: "plain_key (api_getLayer env) \<longrightarrow>
            (\<forall>task. \<exists>res. fst (captureGetLayer env zero_layer task (e, w)) = Returns res)
          \<and> (task_layer (snd (mark (start (api_getLayer env)) w)) = (Panics v, u) \<longrightarrow>
               fst (captureGetLayer env zero_layer task_layer (e, w)) = Returns zero_layer
             \<and> recovery_effects env v (e, u)
                 (snd (captureGetLayer env zero_layer task_layer (e, w)))
             \<and> (v \<noteq> NilValue \<longrightarrow>
                  markers (timeline (diagnostics (api_getLayer env))
                     (diag (snd (snd (captureGetLayer env zero_layer task_layer (e, w))))))
                    = markers (timeline (diagnostics (api_getLayer env)) (diag u))
                        @ [(success False (end' (api_getLayer env)))
                             \<lparr>Timestamp := unix_seconds u * 1000\<rparr>]))"
  proof (intro impI conjI)
    assume k: "plain_key (api_getLayer env)"
    show "\<forall>task. \<exists>res. fst (captureGetLayer env zero_layer task (e, w)) = Returns res"
      using marked_body_total [where g = "api_getLayer env" and env = env
          and zero = zero_layer and e = e and w = w] k
      by (simp add: captureGetLayer_def)
    assume t: "task_layer (snd (mark (start (api_getLayer env)) w)) = (Panics v, u)"
    have eq: "captureGetLayer env zero_layer task_layer (e, w)
      = (Returns zero_layer,
         if v = NilValue then (e, u)
         else (fst (logException env (toError env v) (e, u)),
               snd (mark (success False (end' (api_getLayer env)))
                      (LogError v (snd (logException env (toError env v) (e, u)))))))"
      using marked_body_panic [where g = "api_getLayer env" and task = task_layer
          and w = w and v = v and u = u and env = env and zero = zero_layer and e = e] k t
      by (simp add: captureGetLayer_def)
    show "fst (captureGetLayer env zero_layer task_layer (e, w)) = Returns zero_layer"
      by (simp add: eq)
    show "recovery_effects env v (e, u)
            (snd (captureGetLayer env zero_layer task_layer (e, w)))"
      using effects_marked [of env v e u "success False (end' (api_getLayer env))"]
      by (simp add: eq)
    assume "v \<noteq> NilValue"
    then show "markers (timeline (diagnostics (api_getLayer env))
                     (diag (snd (snd (captureGetLayer env zero_layer task_layer (e, w))))))
                    = markers (timeline (diagnostics (api_getLayer env)) (diag u))
                        @ [(success False (end' (api_getLayer env)))
                             \<lparr>Timestamp := unix_seconds u * 1000\<rparr>]"
      using end_failure_marked [of "api_getLayer env" v env "toError env v" e u]
      by (simp add: eq)
  qed
  have r_total: "\<forall>task. \<exists>res.
      fst (captureGetClientInitializeResponse env zero_response task (e, w)) = Returns res"
    using plain_body_total [where env = env and zero = zero_response and e = e and w = w]
    by (simp add: captureGetClientInitializeResponse_def)
  have r_run: "task_response w = (Panics v, u) \<longrightarrow>
            fst (captureGetClientInitializeResponse env zero_response task_response (e, w))
              = Returns zero_response
          \<and> recovery_effects env v (e, u)
              (snd (captureGetClientInitializeResponse env zero_response task_response (e, w)))"
    using effects_plain [of env v e u]
    by (simp add: captureGetClientInitializeResponse_def recovered_plain)
  have v_total: "\<forall>task. \<exists>res. fst (captureVoid env task (e, w)) = Returns res"
    using plain_body_total [where env = env and zero = "()" and e = e and w = w]
    by (simp add: captureVoid_def)
  have v_run: "task_void w = (Panics v, u) \<longrightarrow>
            fst (captureVoid env task_void (e, w)) = Returns ()
          \<and> recovery_effects env v (e, u) (snd (captureVoid env task_void (e, w)))"
    using effects_plain [of env v e u]
    by (simp add: captureVoid_def recovered_plain)
  show ?thesis
    using first(1) second(1) log1 log2 once dedup g_total g_run c_all l_all
      r_total r_run v_total v_run
    by (intro conjI)
qed

theorem error_boundary_recovers_witness:
  "plain_key (api_checkGate example_eb_env)
   \<and> plain_key (api_getConfig example_eb_env) \<and> plain_key (api_getLayer example_eb_env)
   \<and> fst (boom (snd (mark (start (api_checkGate example_eb_env)) example_world))
          :: bool task_result \<times> world) = Panics (StringValue ''boom'')
   \<and> StringValue ''boom'' \<noteq> NilValue
   \<and> \<not> seen example_boundary (signature (toError example_eb_env (StringValue ''boom'')))
   \<and> reports_succeed example_eb_env example_boundary
   \<and> fst (captureCheckGate example_eb_env boom (example_boundary, example_world))
       = Returns False
   \<and> fst (captureCheckGate example_eb_env boom
            (snd (captureCheckGate example_eb_env boom (example_boundary, example_world))))
       = Returns False
   \<and> length (posts (snd (snd (captureCheckGate example_eb_env boom
            (snd (captureCheckGate example_eb_env boom
               (example_boundary, example_world))))))) = 1
   \<and> errors (snd (snd (captureCheckGate example_eb_env boom
            (snd (captureCheckGate example_eb_env boom
               (example_boundary, example_world))))))
       = [StringValue ''boom'', StringValue ''boom'']
   \<and> fst (captureGetConfig example_eb_env (0::nat) boom (example_boundary, example_world))
       = Returns 0
   \<and> errors (snd (snd (captureGetConfig example_eb_env (0::nat) boom
            (example_boundary, example_world)))) = [StringValue ''boom'']
   \<and> fst (captureGetLayer example_eb_env (0::nat) boom (example_boundary, example_world))
       = Returns 0
   \<and> errors (snd (snd (captureGetLayer example_eb_env (0::nat) boom
            (example_boundary, example_world)))) = [StringValue ''boom'']
   \<and> fst (captureGetClientInitializeResponse example_eb_env (0::nat) boom
            (example_boundary, example_world)) = Returns 0
   \<and> errors (snd (snd (captureGetClientInitializeResponse example_eb_env (0::nat) boom
            (example_boundary, example_world)))) = [StringValue ''boom'']
   \<and> fst (captureVoid example_eb_env boom (example_boundary, example_world)) = Returns ()
   \<and> errors (snd (snd (captureVoid example_eb_env boom (example_boundary, example_world))))
       = [StringValue ''boom'']
   \<and> snd (captureVoid example_eb_env silent_panic (example_boundary, example_world))
       = (example_boundary, example_world)"
proof -
  have g: "plain_key (api_checkGate example_eb_env)"
    "plain_key (api_getConfig example_eb_env)" "plain_key (api_getLayer example_eb_env)"
    by (simp_all add: plain_key_def example_eb_env_def new_marker_def
        DownloadConfigSpecsKey_def DataStoreConfigSpecsKey_def)
  have b: "boom x = (Panics (StringValue ''boom''), x)" for x
    by (simp add: boom_def)
  have n: "StringValue ''boom'' \<noteq> NilValue"
    by simp
  have ok: "reports_succeed example_eb_env example_boundary"
    by (simp add: reports_succeed_def example_eb_env_def)
  have fresh: "seen example_boundary = (\<lambda>_. False)"
    by (simp add: example_boundary_def newErrorBoundary_def Let_def)
  have empty: "posts example_world = []" "errors example_world = []"
    by (simp_all add: example_world_def)
  let ?c1 = "captureCheckGate example_eb_env boom (example_boundary, example_world)"
  let ?c2 = "captureCheckGate example_eb_env boom (snd ?c1)"
  have c1: "?c1 = (fst ?c1, fst (snd ?c1), snd (snd ?c1))"
    by simp
  have c2: "captureCheckGate example_eb_env boom (fst (snd ?c1), snd (snd ?c1))
      = (fst ?c2, fst (snd ?c2), snd (snd ?c2))"
    by simp
  note run = error_boundary_recovers [OF g(1) b c1 b c2 n n refl,
      where v = "StringValue ''boom''"
        and u = "snd (mark (start (api_checkGate example_eb_env)) example_world)"
        and task = boom and task_config = boom and task_layer = boom
        and task_response = boom and task_void = boom
        and zero_config = "0::nat" and zero_layer = "0::nat" and zero_response = "0::nat"]
  have a: "fst ?c1 = Returns False" "fst ?c2 = Returns False"
    using run by simp_all
  have l1: "errors (snd (snd ?c1)) = [StringValue ''boom'']"
    using run by (simp add: mark_keeps empty)
  have l2: "errors (snd (snd ?c2)) = [StringValue ''boom'', StringValue ''boom'']"
    using run by (simp add: mark_keeps l1)
  obtain new where "posts (snd (snd ?c1))
      = posts (snd (mark (start (api_checkGate example_eb_env)) example_world)) @ new"
    "length new = 1"
    using run ok by (auto simp: fresh)
  then have p1: "length (posts (snd (snd ?c1))) = 1"
    by (simp add: mark_keeps empty)
  have p2: "length (posts (snd (snd ?c2))) = 1"
    using run p1 by (simp add: mark_keeps)
  note cfg = error_boundary_recovers [OF g(1) b c1 b c2 n n refl,
      where v = "StringValue ''boom''"
        and u = "snd (mark (start (api_getConfig example_eb_env)) example_world)"
        and task = boom and task_config = boom and task_layer = boom
        and task_response = boom and task_void = boom and zero_config = "0::nat"
        and zero_layer = "0::nat" and zero_response = "0::nat"]
  have d: "fst (captureGetConfig example_eb_env (0::nat) boom
      (example_boundary, example_world)) = Returns 0"
    "errors (snd (snd (captureGetConfig example_eb_env (0::nat) boom
      (example_boundary, example_world)))) = [StringValue ''boom'']"
    using cfg g(2) by (simp_all add: b recovery_effects_def mark_keeps empty)
  note lay = error_boundary_recovers [OF g(1) b c1 b c2 n n refl,
      where v = "StringValue ''boom''"
        and u = "snd (mark (start (api_getLayer example_eb_env)) example_world)"
        and task = boom and task_config = boom and task_layer = boom
        and task_response = boom and task_void = boom and zero_config = "0::nat"
        and zero_layer = "0::nat" and zero_response = "0::nat"]
  have l: "fst (captureGetLayer example_eb_env (0::nat) boom
      (example_boundary, example_world)) = Returns 0"
    "errors (snd (snd (captureGetLayer example_eb_env (0::nat) boom
      (example_boundary, example_world)))) = [StringValue ''boom'']"
    using lay g(3) by (simp_all add: b recovery_effects_def mark_keeps empty)
  note pl = error_boundary_recovers [OF g(1) b c1 b c2 n n refl,
      where v = "StringValue ''boom''" and u = example_world
        and task = boom and task_config = boom and task_layer = boom
        and task_response = boom and task_void = boom and zero_config = "0::nat"
        and zero_layer = "0::nat" and zero_response = "0::nat"]
  have r: "fst (captureGetClientInitializeResponse example_eb_env (0::nat) boom
      (example_boundary, example_world)) = Returns 0"
    "errors (snd (snd (captureGetClientInitializeResponse example_eb_env (0::nat) boom
      (example_boundary, example_world)))) = [StringValue ''boom'']"
    "fst (captureVoid example_eb_env boom (example_boundary, example_world)) = Returns ()"
    "errors (snd (snd (captureVoid example_eb_env boom (example_boundary, example_world))))
       = [StringValue ''boom'']"
    using pl by (simp_all add: b recovery_effects_def empty)
  note nil = error_boundary_recovers [OF g(1) b c1 b c2 n n refl,
      where v = NilValue and u = example_world and task_void = silent_panic
        and task = boom and task_config = boom and task_layer = boom
        and task_response = boom
        and zero_config = "0::nat" and zero_layer = "0::nat" and zero_response = "0::nat"]
  have q: "snd (captureVoid example_eb_env silent_panic (example_boundary, example_world))
       = (example_boundary, example_world)"
    using nil by (simp add: silent_panic_def recovery_effects_def)
  have f: "\<not> seen example_boundary (signature (toError example_eb_env (StringValue ''boom'')))"
    by (simp add: fresh)
  have bb: "fst (boom (snd (mark (start (api_checkGate example_eb_env)) example_world))
          :: bool task_result \<times> world) = Panics (StringValue ''boom'')"
    by (simp add: b)
  show ?thesis
    using g bb n f ok a p2 l2 d l r q by (intro conjI)
qed

text \<open>
  The claim as written fails for a task that calls \<open>panic(nil)\<close>: the panic is
  recovered and the gate check returns \<open>false\<close>, but no line is added to the error log
  and nothing is sent.
\<close>

theorem nil_panic_not_logged_counterexample:
  "fst (silent_panic (snd (mark (start (api_checkGate example_eb_env)) example_world))
         :: bool task_result \<times> world) = Panics NilValue
   \<and> fst (captureCheckGate example_eb_env silent_panic (example_boundary, example_world))
       = Returns False
   \<and> errors (snd (snd (captureCheckGate example_eb_env silent_panic
                         (example_boundary, example_world)))) = []
   \<and> posts (snd (snd (captureCheckGate example_eb_env silent_panic
                        (example_boundary, example_world)))) = []"
  by code_simp

end
